theory Spec2Isabelle
  imports Complex_Main
begin

section \<open>Python values that the handlers compare\<close>

text \<open>
  The API is written in Python (Flask, SQLAlchemy, marshmallow, flask-jwt-extended).
  Strings are modelled over the Latin-1 repertoire: one \<open>char\<close> per code point below 256.
  Identifiers of rows are the non-negative integers of an autoincrement primary key.

  A value that a handler compares with \<open>==\<close> or \<open>!=\<close> is one of Python's \<open>None\<close>,
  an \<open>int\<close> or a \<open>str\<close>; Python's equality between an \<open>int\<close> and a \<open>str\<close> is
  always false, which is the equality of this datatype.
\<close>

datatype pyval = PyNone | PyInt int | PyStr string

definition digit_char :: "nat \<Rightarrow> char" where
  "digit_char d = char_of (48 + d)"

text \<open>\<open>str(n)\<close> for a non-negative integer: its decimal digits, most significant first.\<close>

function str_nat :: "nat \<Rightarrow> string" where
  "str_nat n = (if n < 10 then [digit_char n] else str_nat (n div 10) @ [digit_char (n mod 10)])"
  by pat_completeness auto
termination
  by (relation "measure id") auto

declare str_nat.simps [simp del]

definition digit_val :: "char \<Rightarrow> nat option" where
  "digit_val c = (let k = (of_char c :: nat) in if 48 \<le> k \<and> k \<le> 57 then Some (k - 48) else None)"

fun parse_digits :: "nat \<Rightarrow> string \<Rightarrow> nat option" where
  "parse_digits acc [] = Some acc"
| "parse_digits acc (c # cs) =
     (case digit_val c of None \<Rightarrow> None | Some d \<Rightarrow> parse_digits (10 * acc + d) cs)"

text \<open>
  The store compares and stores an Integer column against a bound parameter after
  coercing the parameter to the column's type: an integer is taken as it is, a text that
  is a decimal literal is read as that number, and nothing else equals an integer key.
\<close>

definition sql_int :: "pyval \<Rightarrow> nat option" where
  "sql_int v =
     (case v of
        PyNone \<Rightarrow> None
      | PyInt i \<Rightarrow> (if 0 \<le> i then Some (nat i) else None)
      | PyStr s \<Rightarrow> (if s = [] then None else parse_digits 0 s))"

lemma digit_char_simps:
  "digit_char 0 = CHR ''0''" "digit_char 1 = CHR ''1''" "digit_char 2 = CHR ''2''"
  "digit_char 3 = CHR ''3''" "digit_char 4 = CHR ''4''" "digit_char 5 = CHR ''5''"
  "digit_char 6 = CHR ''6''" "digit_char 7 = CHR ''7''" "digit_char 8 = CHR ''8''"
  "digit_char 9 = CHR ''9''" "digit_char (Suc 0) = CHR ''1''"
  by code_simp+

lemma digit_val_digit_char: "d < 10 \<Longrightarrow> digit_val (digit_char d) = Some d"
  by (simp add: digit_val_def digit_char_def)

lemma parse_digits_snoc:
  "parse_digits acc (cs @ [c]) =
     (case parse_digits acc cs of
        None \<Rightarrow> None
      | Some a \<Rightarrow> (case digit_val c of None \<Rightarrow> None | Some d \<Rightarrow> Some (10 * a + d)))"
  by (induction cs arbitrary: acc) (auto split: option.splits)

lemma parse_digits_str_nat: "parse_digits 0 (str_nat n) = Some n"
proof (induction n rule: str_nat.induct)
  case (1 n)
  show ?case
  proof (cases "n < 10")
    case True
    then show ?thesis
      by (subst str_nat.simps) (simp add: digit_val_digit_char)
  next
    case False
    then have "parse_digits 0 (str_nat (n div 10)) = Some (n div 10)"
      using "1.IH" by simp
    with False show ?thesis
      by (subst str_nat.simps) (simp add: parse_digits_snoc digit_val_digit_char)
  qed
qed

lemma str_nat_not_Nil: "str_nat n \<noteq> []"
  by (subst str_nat.simps) simp

lemma sql_int_str_nat: "sql_int (PyStr (str_nat n)) = Some n"
  by (simp add: sql_int_def str_nat_not_Nil parse_digits_str_nat)

lemma str_nat_inject: "str_nat m = str_nat n \<Longrightarrow> m = n"
  by (metis option.inject parse_digits_str_nat)


section \<open>The store\<close>

text \<open>
  Rows of the five tables, with the columns that the handlers below read or write.
  A table is the list of its rows in the order of their creation.
\<close>

record user =
  u_id :: nat
  u_username :: string
  u_is_admin :: bool

record category =
  c_id :: nat
  c_name :: string
  c_slug :: string
  c_description :: "string option"
  c_image :: "string option"

record recipe =
  r_id :: nat
  r_title :: string
  r_slug :: string
  r_instructions :: string
  r_is_published :: bool
  r_user_id :: nat
  r_category_id :: nat

record ingredient =
  i_id :: nat
  i_name :: string
  i_quantity :: string
  i_unit :: "string option"
  i_notes :: "string option"
  i_order :: int
  i_recipe_id :: nat

record rating =
  rt_id :: nat
  rt_score :: int
  rt_comment :: "string option"
  rt_user_id :: nat
  rt_recipe_id :: nat

record db =
  users :: "user list"
  categories :: "category list"
  recipes :: "recipe list"
  ingredients :: "ingredient list"
  ratings :: "rating list"

datatype db_error = IntegrityError | DataError

text \<open>The next value of an autoincrement key: one more than the largest key in use.\<close>

definition next_id :: "nat list \<Rightarrow> nat" where
  "next_id ids = Suc (fold max ids 0)"

definition User_query_get :: "db \<Rightarrow> pyval \<Rightarrow> user option" where
  "User_query_get d ident =
     (case sql_int ident of None \<Rightarrow> None | Some k \<Rightarrow> find (\<lambda>u. u_id u = k) (users d))"

definition Recipe_query_get :: "db \<Rightarrow> nat \<Rightarrow> recipe option" where
  "Recipe_query_get d recipe_id = find (\<lambda>r. r_id r = recipe_id) (recipes d)"

definition Category_query_get :: "db \<Rightarrow> nat \<Rightarrow> category option" where
  "Category_query_get d category_id = find (\<lambda>c. c_id c = category_id) (categories d)"

section \<open>Responses (utils/responses.py)\<close>

text \<open>
  The envelope \<open>{success, message, data}\<close> with its status code. The per-field
  messages of a validation failure and the text of an unexpected exception are not
  modelled: a 500 response carries the handler's prefix only.
\<close>

record 'd response =
  status_code :: nat
  success :: bool
  message :: string
  data :: "'d option"

definition success_response :: "'d option \<Rightarrow> string \<Rightarrow> nat \<Rightarrow> 'd response" where
  "success_response dat msg code = \<lparr>status_code = code, success = True, message = msg, data = dat\<rparr>"

definition error_response :: "string \<Rightarrow> nat \<Rightarrow> 'd response" where
  "error_response msg code = \<lparr>status_code = code, success = False, message = msg, data = None\<rparr>"

definition validation_error_response :: "'d response" where
  "validation_error_response = error_response ''Validation failed'' 422"

definition not_found_response :: "string \<Rightarrow> 'd response" where
  "not_found_response msg = error_response msg 404"

definition forbidden_response :: "string \<Rightarrow> 'd response" where
  "forbidden_response msg = error_response msg 403"

section \<open>Identity (api/v1/auth.py)\<close>

text \<open>
  Register, login and refresh all issue their tokens with \<open>identity=str(user.id)\<close>, and
  no identity loader is installed, so \<open>get_jwt_identity()\<close> returns that string in the
  handlers; without a token (on an endpoint where it is optional) it returns \<open>None\<close>.
\<close>

definition create_access_token :: "nat \<Rightarrow> pyval" where
  "create_access_token user_id = PyStr (str_nat user_id)"

section \<open>Request bodies\<close>

text \<open>
  A field of a JSON object is missing, \<open>null\<close> or a value. A body is \<open>None\<close> when the
  request carries no JSON. Bodies hold the fields of their schema only (marshmallow
  rejects an unknown field with the same 422 as any other validation failure), and a
  field holds a JSON value of the schema's type.
\<close>

datatype 'a field = Missing | Null | Val 'a

record rating_json =
  j_score :: "int field"
  j_comment :: "string field"

text \<open>\<open>if not json_data\<close> holds without a body and for the empty object.\<close>

definition rating_json_empty :: "rating_json \<Rightarrow> bool" where
  "rating_json_empty j = (j_score j = Missing \<and> j_comment j = Missing)"

text \<open>What a schema's \<open>load\<close> returns for the rating: the keys that were given.\<close>

record rating_validated =
  v_score :: "int option"
  v_comment :: "string option option"

definition comment_ok :: "string field \<Rightarrow> bool" where
  "comment_ok c = (case c of Val s \<Rightarrow> length s \<le> 500 | _ \<Rightarrow> True)"

definition load_comment :: "string field \<Rightarrow> string option option" where
  "load_comment c = (case c of Missing \<Rightarrow> None | Null \<Rightarrow> Some None | Val s \<Rightarrow> Some (Some s))"

text \<open>RatingCreateSchema: \<open>score\<close> required, an integer from 1 to 5; \<open>comment\<close> at most
  500 characters, or null. The result is \<open>validated_data['score']\<close> with
  \<open>validated_data.get('comment')\<close>.\<close>

definition rating_create_schema_load :: "rating_json \<Rightarrow> (int \<times> string option) option" where
  "rating_create_schema_load j =
     (case j_score j of
        Val s \<Rightarrow>
          (if 1 \<le> s \<and> s \<le> 5 \<and> comment_ok (j_comment j)
           then Some (s, case j_comment j of Val c \<Rightarrow> Some c | _ \<Rightarrow> None)
           else None)
      | _ \<Rightarrow> None)"

text \<open>RatingUpdateSchema: the same fields, all optional.\<close>

definition rating_update_schema_load :: "rating_json \<Rightarrow> rating_validated option" where
  "rating_update_schema_load j =
     (case j_score j of
        Null \<Rightarrow> None
      | Missing \<Rightarrow>
          (if comment_ok (j_comment j)
           then Some \<lparr>v_score = None, v_comment = load_comment (j_comment j)\<rparr> else None)
      | Val s \<Rightarrow>
          (if 1 \<le> s \<and> s \<le> 5 \<and> comment_ok (j_comment j)
           then Some \<lparr>v_score = Some s, v_comment = load_comment (j_comment j)\<rparr>
           else None))"


section \<open>Ratings (models/rating.py, api/v1/ratings.py)\<close>

definition rating_key :: "rating \<Rightarrow> nat \<times> nat" where
  "rating_key r = (rt_user_id r, rt_recipe_id r)"

text \<open>\<open>Rating.query.filter_by(user_id=current_user_id, recipe_id=recipe_id).first()\<close>\<close>

definition Rating_by_user_recipe :: "db \<Rightarrow> pyval \<Rightarrow> nat \<Rightarrow> rating option" where
  "Rating_by_user_recipe d current_user_id recipe_id =
     (case sql_int current_user_id of
        None \<Rightarrow> None
      | Some u \<Rightarrow> find (\<lambda>r. rating_key r = (u, recipe_id)) (ratings d))"

text \<open>\<open>Rating.query.filter_by(id=rating_id, recipe_id=recipe_id).first()\<close>\<close>

definition Rating_by_id_recipe :: "db \<Rightarrow> nat \<Rightarrow> nat \<Rightarrow> rating option" where
  "Rating_by_id_recipe d rating_id recipe_id =
     find (\<lambda>r. rt_id r = rating_id \<and> rt_recipe_id r = recipe_id) (ratings d)"

text \<open>
  \<open>db.session.add(new_rating); db.session.commit()\<close>. The table carries
  \<open>UniqueConstraint('user_id', 'recipe_id')\<close>: an insert of a pair that a row already
  has raises IntegrityError and writes nothing.
\<close>

definition db_add_rating ::
  "db \<Rightarrow> int \<Rightarrow> string option \<Rightarrow> pyval \<Rightarrow> nat \<Rightarrow> db_error + rating \<times> db" where
  "db_add_rating d score comment user_ident recipe_id =
     (case sql_int user_ident of
        None \<Rightarrow> Inl DataError
      | Some u \<Rightarrow>
          if (u, recipe_id) \<in> set (map rating_key (ratings d)) then Inl IntegrityError
          else
            let new_rating = \<lparr>rt_id = next_id (map rt_id (ratings d)), rt_score = score,
                  rt_comment = comment, rt_user_id = u, rt_recipe_id = recipe_id\<rparr>
            in Inr (new_rating, d\<lparr>ratings := ratings d @ [new_rating]\<rparr>))"

text \<open>
  RatingListResource.post has two parts. The first reads the store: the recipe, the
  caller's existing rating, the body. The second adds the row and commits, and its
  \<open>except\<close> clauses turn the constraint's IntegrityError into a 400.
\<close>

definition rating_post_check ::
  "db \<Rightarrow> pyval \<Rightarrow> nat \<Rightarrow> rating_json option \<Rightarrow> rating response + int \<times> string option" where
  "rating_post_check d current_user_id recipe_id json_data =
     (case Recipe_query_get d recipe_id of
        None \<Rightarrow> Inl (not_found_response ''Recipe not found'')
      | Some recipe \<Rightarrow>
          (case Rating_by_user_recipe d current_user_id recipe_id of
             Some existing_rating \<Rightarrow>
               Inl (error_response
                 ''You have already rated this recipe. Use PUT to update your rating.'' 400)
           | None \<Rightarrow>
               (case json_data of
                  None \<Rightarrow> Inl (error_response ''No input data provided'' 400)
                | Some j \<Rightarrow>
                    if rating_json_empty j then Inl (error_response ''No input data provided'' 400)
                    else
                      (case rating_create_schema_load j of
                         None \<Rightarrow> Inl validation_error_response
                       | Some validated_data \<Rightarrow> Inr validated_data))))"

definition rating_post_commit ::
  "db \<Rightarrow> int \<times> string option \<Rightarrow> pyval \<Rightarrow> nat \<Rightarrow> rating response \<times> db" where
  "rating_post_commit d validated_data current_user_id recipe_id =
     (case db_add_rating d (fst validated_data) (snd validated_data) current_user_id recipe_id of
        Inr (new_rating, d') \<Rightarrow>
          (success_response (Some new_rating) ''Rating added successfully'' 201, d')
      | Inl IntegrityError \<Rightarrow> (error_response ''You have already rated this recipe'' 400, d)
      | Inl DataError \<Rightarrow> (error_response ''Error adding rating: '' 500, d))"

definition rating_post ::
  "db \<Rightarrow> pyval \<Rightarrow> nat \<Rightarrow> rating_json option \<Rightarrow> rating response \<times> db" where
  "rating_post d current_user_id recipe_id json_data =
     (case rating_post_check d current_user_id recipe_id json_data of
        Inl resp \<Rightarrow> (resp, d)
      | Inr validated_data \<Rightarrow> rating_post_commit d validated_data current_user_id recipe_id)"

text \<open>
  The same handler when another request commits between its reads and its commit: it
  reads the store \<open>d\<close> and commits on the store \<open>d'\<close>.
\<close>

definition rating_post_interleaved ::
  "db \<Rightarrow> db \<Rightarrow> pyval \<Rightarrow> nat \<Rightarrow> rating_json option \<Rightarrow> rating response \<times> db" where
  "rating_post_interleaved d d' current_user_id recipe_id json_data =
     (case rating_post_check d current_user_id recipe_id json_data of
        Inl resp \<Rightarrow> (resp, d')
      | Inr validated_data \<Rightarrow> rating_post_commit d' validated_data current_user_id recipe_id)"

text \<open>\<open>for key, value in validated_data.items(): setattr(rating, key, value)\<close>\<close>

definition apply_rating_update :: "rating \<Rightarrow> rating_validated \<Rightarrow> rating" where
  "apply_rating_update r v =
     r\<lparr>rt_score := (case v_score v of None \<Rightarrow> rt_score r | Some s \<Rightarrow> s),
       rt_comment := (case v_comment v of None \<Rightarrow> rt_comment r | Some c \<Rightarrow> c)\<rparr>"

definition rating_put ::
  "db \<Rightarrow> pyval \<Rightarrow> nat \<Rightarrow> nat \<Rightarrow> rating_json option \<Rightarrow> rating response \<times> db" where
  "rating_put d current_user_id recipe_id rating_id json_data =
     (case Recipe_query_get d recipe_id of
        None \<Rightarrow> (not_found_response ''Recipe not found'', d)
      | Some recipe \<Rightarrow>
          (case Rating_by_id_recipe d rating_id recipe_id of
             None \<Rightarrow> (not_found_response ''Rating not found'', d)
           | Some rating \<Rightarrow>
               if PyInt (int (rt_user_id rating)) \<noteq> current_user_id
               then (forbidden_response ''You can only update your own ratings'', d)
               else
                 (case json_data of
                    None \<Rightarrow> (error_response ''No input data provided'' 400, d)
                  | Some j \<Rightarrow>
                      if rating_json_empty j
                      then (error_response ''No input data provided'' 400, d)
                      else
                        (case rating_update_schema_load j of
                           None \<Rightarrow> (validation_error_response, d)
                         | Some validated_data \<Rightarrow>
                             (success_response (Some (apply_rating_update rating validated_data))
                                ''Rating updated successfully'' 200,
                              d\<lparr>ratings :=
                                  map (\<lambda>r. if rt_id r = rt_id rating
                                            then apply_rating_update r validated_data else r)
                                    (ratings d)\<rparr>)))))"

definition rating_delete :: "db \<Rightarrow> pyval \<Rightarrow> nat \<Rightarrow> nat \<Rightarrow> rating response \<times> db" where
  "rating_delete d current_user_id recipe_id rating_id =
     (case Recipe_query_get d recipe_id of
        None \<Rightarrow> (not_found_response ''Recipe not found'', d)
      | Some recipe \<Rightarrow>
          (case Rating_by_id_recipe d rating_id recipe_id of
             None \<Rightarrow> (not_found_response ''Rating not found'', d)
           | Some rating \<Rightarrow>
               if PyInt (int (rt_user_id rating)) \<noteq> current_user_id
               then (forbidden_response ''You can only delete your own ratings'', d)
               else
                 (success_response None ''Rating deleted successfully'' 200,
                  d\<lparr>ratings := filter (\<lambda>r. rt_id r \<noteq> rt_id rating) (ratings d)\<rparr>)))"


section \<open>Slugs (api/v1/recipes.py, models/category.py)\<close>

text \<open>
  \<open>str.lower()\<close> on the Latin-1 repertoire: the letters A to Z and the accented capitals
  from U+00C0 to U+00DE, the multiplication sign U+00D7 excepted, move up by 32.
\<close>

definition py_lower_char :: "char \<Rightarrow> char" where
  "py_lower_char c =
     (let k = (of_char c :: nat)
      in if (65 \<le> k \<and> k \<le> 90) \<or> (192 \<le> k \<and> k \<le> 222 \<and> k \<noteq> 215)
         then char_of (k + 32) else c)"

definition py_lower :: "string \<Rightarrow> string" where
  "py_lower s = map py_lower_char s"

text \<open>\<open>s.replace(a, b)\<close> for one-character strings \<open>a\<close> and \<open>b\<close>.\<close>

definition replace_char :: "char \<Rightarrow> char \<Rightarrow> string \<Rightarrow> string" where
  "replace_char a b s = map (\<lambda>c. if c = a then b else c) s"

text \<open>The characters of the class \<open>[a-z0-9-]\<close>.\<close>

definition slug_char :: "char \<Rightarrow> bool" where
  "slug_char c =
     (let k = (of_char c :: nat)
      in (97 \<le> k \<and> k \<le> 122) \<or> (48 \<le> k \<and> k \<le> 57) \<or> k = 45)"

text \<open>\<open>re.sub(r'-+', '-', s)\<close>\<close>

fun collapse_hyphens :: "string \<Rightarrow> string" where
  "collapse_hyphens [] = []"
| "collapse_hyphens [c] = [c]"
| "collapse_hyphens (c # c' # cs) =
     (if c = CHR ''-'' \<and> c' = CHR ''-'' then collapse_hyphens (c' # cs)
      else c # collapse_hyphens (c' # cs))"

text \<open>\<open>s.strip('-')\<close>\<close>

definition strip_hyphens :: "string \<Rightarrow> string" where
  "strip_hyphens s =
     rev (dropWhile (\<lambda>c. c = CHR ''-'') (rev (dropWhile (\<lambda>c. c = CHR ''-'') s)))"

text \<open>
  The slug that RecipeListResource.post computes from the title:
  \<^verbatim>\<open>new_slug = validated_data['title'].lower().replace(' ', '-')\<close>,
  \<^verbatim>\<open>new_slug = re.sub(r'[^a-z0-9-]', '', new_slug)\<close>,
  \<^verbatim>\<open>new_slug = re.sub(r'-+', '-', new_slug).strip('-')\<close>.
\<close>

definition recipe_new_slug :: "string \<Rightarrow> string" where
  "recipe_new_slug title =
     strip_hyphens (collapse_hyphens (filter slug_char
       (replace_char (CHR '' '') (CHR ''-'') (py_lower title))))"

text \<open>\<open>Category._generate_slug\<close>: \<^verbatim>\<open>name.lower().replace(' ', '-').replace('_', '-')\<close>\<close>

definition Category_generate_slug :: "string \<Rightarrow> string" where
  "Category_generate_slug name =
     replace_char (CHR ''_'') (CHR ''-'') (replace_char (CHR '' '') (CHR ''-'') (py_lower name))"

text \<open>
  The specification's \<open>deriveSlug\<close>, written from its words for comparison: lowercase,
  replace whitespace runs with a single hyphen, strip characters outside \<open>[a-z0-9-]\<close>,
  collapse repeated hyphens, trim leading and trailing hyphens. Whitespace is what
  \<open>str.isspace\<close> accepts in the Latin-1 repertoire.
\<close>

definition py_isspace :: "char \<Rightarrow> bool" where
  "py_isspace c =
     (let k = (of_char c :: nat)
      in (9 \<le> k \<and> k \<le> 13) \<or> (28 \<le> k \<and> k \<le> 32) \<or> k = 133 \<or> k = 160)"

fun replace_whitespace_runs :: "string \<Rightarrow> string" where
  "replace_whitespace_runs [] = []"
| "replace_whitespace_runs [c] = [if py_isspace c then CHR ''-'' else c]"
| "replace_whitespace_runs (c # c' # cs) =
     (if py_isspace c \<and> py_isspace c' then replace_whitespace_runs (c' # cs)
      else (if py_isspace c then CHR ''-'' else c) # replace_whitespace_runs (c' # cs))"

definition deriveSlug_spec :: "string \<Rightarrow> string" where
  "deriveSlug_spec text =
     strip_hyphens (collapse_hyphens (filter slug_char
       (replace_whitespace_runs (py_lower text))))"

text \<open>\<^verbatim>\<open>f"{base_slug}-{counter}"\<close>\<close>

definition slug_candidate :: "string \<Rightarrow> nat \<Rightarrow> string" where
  "slug_candidate base_slug counter = base_slug @ ''-'' @ str_nat counter"

lemma slug_candidate_inject: "slug_candidate b m = slug_candidate b n \<Longrightarrow> m = n"
  by (simp add: slug_candidate_def str_nat_inject)

lemma finite_taken_candidates: "finite {k. slug_candidate b k \<in> set taken}"
proof -
  have "inj (slug_candidate b)"
    by (rule injI) (rule slug_candidate_inject)
  then have "finite (slug_candidate b -` set taken)"
    by (intro finite_vimageI) simp_all
  then show ?thesis by (simp add: vimage_def)
qed

text \<open>
  The loop that makes the slug unique,
  \<^verbatim>\<open>while Recipe.query.filter_by(slug=new_slug).first():\<close>
  \<^verbatim>\<open>    new_slug = f"{base_slug}-{counter}"; counter += 1\<close>
  over the slugs \<open>taken\<close> in the table. It ends because the candidates are pairwise
  different and the table is finite.
\<close>

definition taken_from :: "string list \<Rightarrow> string \<Rightarrow> nat \<Rightarrow> nat set" where
  "taken_from taken b c = {k. c \<le> k \<and> slug_candidate b k \<in> set taken}"

lemma finite_taken_from: "finite (taken_from taken b c)"
  by (rule finite_subset [OF _ finite_taken_candidates [of b taken]])
     (auto simp: taken_from_def)

lemma taken_from_step:
  "taken_from taken b c =
     (if slug_candidate b c \<in> set taken then insert c (taken_from taken b (Suc c))
      else taken_from taken b (Suc c))"
  by (auto simp: taken_from_def Suc_le_eq le_less)

lemma card_taken_from_step:
  "card (taken_from taken b c) =
     (if slug_candidate b c \<in> set taken then Suc (card (taken_from taken b (Suc c)))
      else card (taken_from taken b (Suc c)))"
proof -
  have "c \<notin> taken_from taken b (Suc c)"
    by (simp add: taken_from_def)
  then show ?thesis
    by (subst taken_from_step) (simp add: finite_taken_from)
qed

function unique_slug_loop :: "string list \<Rightarrow> string \<Rightarrow> string \<Rightarrow> nat \<Rightarrow> string" where
  "unique_slug_loop taken base_slug new_slug counter =
     (if new_slug \<in> set taken
      then unique_slug_loop taken base_slug (slug_candidate base_slug counter) (counter + 1)
      else new_slug)"
  by pat_completeness auto
termination
proof (relation "measure (\<lambda>(taken, b, s, c).
    (if s \<in> set taken then 1 else 0) + card (taken_from taken b c))")
  show "wf (measure (\<lambda>(taken, b, s, c).
    (if s \<in> set taken then 1 else 0) + card (taken_from taken b c)))"
    by simp
next
  fix taken :: "string list" and base_slug new_slug :: string and counter :: nat
  assume "new_slug \<in> set taken"
  then show "((taken, base_slug, slug_candidate base_slug counter, counter + 1),
              (taken, base_slug, new_slug, counter))
         \<in> measure (\<lambda>(taken, b, s, c).
              (if s \<in> set taken then 1 else 0) + card (taken_from taken b c))"
    by (simp add: card_taken_from_step [of taken base_slug counter])
qed

declare unique_slug_loop.simps [simp del]

text \<open>
  The candidates in the order in which the loop tries them: the base slug, then the base
  slug with the suffixes \<open>-1\<close>, \<open>-2\<close>, and so on.
\<close>

definition nth_candidate :: "string \<Rightarrow> nat \<Rightarrow> string" where
  "nth_candidate base_slug k = (if k = 0 then base_slug else slug_candidate base_slug k)"

text \<open>A text whose only whitespace is the space character U+0020.\<close>

definition only_space_whitespace :: "string \<Rightarrow> bool" where
  "only_space_whitespace s = list_all (\<lambda>c. py_isspace c \<longrightarrow> c = CHR '' '') s"

section \<open>Recipes (api/v1/recipes.py, schemas/recipe_schema.py)\<close>

text \<open>
  The body of a recipe, with the fields that decide the slug, the owner and the
  visibility; the optional fields that are copied to the row unchanged (description,
  times, servings, difficulty, image) are left out of the model.
\<close>

record recipe_json =
  rj_title :: "string field"
  rj_instructions :: "string field"
  rj_category_id :: "int field"
  rj_is_published :: "bool field"

definition recipe_json_empty :: "recipe_json \<Rightarrow> bool" where
  "recipe_json_empty j =
     (rj_title j = Missing \<and> rj_instructions j = Missing \<and> rj_category_id j = Missing
      \<and> rj_is_published j = Missing)"

text \<open>
  \<^verbatim>\<open>validate.Regexp(r'^\S.*\S$|^\S$')\<close>, applied with \<open>re.match\<close>: the title starts and
  ends with a character that is not whitespace and holds no line feed; since \<open>$\<close> also
  matches before a final line feed, one line feed may follow.
\<close>

definition title_regexp :: "string \<Rightarrow> bool" where
  "title_regexp s =
     (let p = (if s \<noteq> [] \<and> last s = CHR 0x0A then butlast s else s)
      in p \<noteq> [] \<and> \<not> py_isspace (hd p) \<and> \<not> py_isspace (last p) \<and> CHR 0x0A \<notin> set p)"

record recipe_validated =
  rv_title :: string
  rv_instructions :: string
  rv_category_id :: int
  rv_is_published :: bool

text \<open>RecipeCreateSchema: title of 3 to 200 characters matching the pattern, instructions
  of at least 10 characters, a category id, and \<open>is_published\<close> with \<open>load_default=False\<close>.\<close>

definition recipe_create_schema_load :: "recipe_json \<Rightarrow> recipe_validated option" where
  "recipe_create_schema_load j =
     (case (rj_title j, rj_instructions j, rj_category_id j) of
        (Val t, Val ins, Val cid) \<Rightarrow>
          (if 3 \<le> length t \<and> length t \<le> 200 \<and> title_regexp t \<and> 10 \<le> length ins
              \<and> rj_is_published j \<noteq> Null
           then Some \<lparr>rv_title = t, rv_instructions = ins, rv_category_id = cid,
                  rv_is_published = (case rj_is_published j of Val b \<Rightarrow> b | _ \<Rightarrow> False)\<rparr>
           else None)
      | _ \<Rightarrow> None)"

text \<open>
  \<open>db.session.add(new_recipe); db.session.commit()\<close>; the column \<open>slug\<close> is unique.
\<close>

definition db_add_recipe ::
  "db \<Rightarrow> recipe_validated \<Rightarrow> string \<Rightarrow> pyval \<Rightarrow> db_error + recipe \<times> db" where
  "db_add_recipe d v slug user_ident =
     (case sql_int user_ident of
        None \<Rightarrow> Inl DataError
      | Some u \<Rightarrow>
          if slug \<in> set (map r_slug (recipes d)) then Inl IntegrityError
          else
            let new_recipe = \<lparr>r_id = next_id (map r_id (recipes d)), r_title = rv_title v,
                  r_slug = slug, r_instructions = rv_instructions v,
                  r_is_published = rv_is_published v, r_user_id = u,
                  r_category_id = nat (rv_category_id v)\<rparr>
            in Inr (new_recipe, d\<lparr>recipes := recipes d @ [new_recipe]\<rparr>))"

definition recipe_post :: "db \<Rightarrow> pyval \<Rightarrow> recipe_json option \<Rightarrow> recipe response \<times> db" where
  "recipe_post d current_user_id json_data =
     (case json_data of
        None \<Rightarrow> (error_response ''No input data provided'' 400, d)
      | Some j \<Rightarrow>
          if recipe_json_empty j then (error_response ''No input data provided'' 400, d)
          else
            (case recipe_create_schema_load j of
               None \<Rightarrow> (validation_error_response, d)
             | Some validated_data \<Rightarrow>
                 (case (if rv_category_id validated_data < 0 then None
                        else Category_query_get d (nat (rv_category_id validated_data))) of
                    None \<Rightarrow> (not_found_response ''Category not found'', d)
                  | Some category \<Rightarrow>
                      let base_slug = recipe_new_slug (rv_title validated_data);
                          new_slug = unique_slug_loop (map r_slug (recipes d)) base_slug base_slug 1
                      in (case db_add_recipe d validated_data new_slug current_user_id of
                            Inr (new_recipe, d') \<Rightarrow>
                              (success_response (Some new_recipe) ''Recipe created successfully'' 201, d')
                          | Inl e \<Rightarrow> (error_response ''Error creating recipe: '' 500, d)))))"

text \<open>
  The check that the handlers of recipes and ingredients repeat,
  \<^verbatim>\<open>user = User.query.get(current_user_id)\<close>
  \<^verbatim>\<open>if recipe.user_id != current_user_id and not user.is_admin:\<close>
  It raises AttributeError when the first comparison holds and the user is not found.
\<close>

datatype permission = Allow | Deny | Raise

definition recipe_permission :: "db \<Rightarrow> recipe \<Rightarrow> pyval \<Rightarrow> permission" where
  "recipe_permission d recipe current_user_id =
     (if PyInt (int (r_user_id recipe)) \<noteq> current_user_id
      then (case User_query_get d current_user_id of
              None \<Rightarrow> Raise
            | Some user \<Rightarrow> if \<not> u_is_admin user then Deny else Allow)
      else Allow)"

text \<open>
  RecipeDetailResource.get. The token is optional: \<open>verify_jwt_in_request(optional=True)\<close>
  raises on a token that is present and invalid, which the bare \<open>except\<close> answers with
  the same 403. Without a token the identity is \<open>None\<close>, for which no user is found.
  The detail carries the recipe with its ingredients by \<open>order\<close> and its ratings,
  newest first.
\<close>

datatype credentials = NoToken | InvalidToken | Token pyval

record recipe_detail =
  rd_recipe :: recipe
  rd_ingredients :: "ingredient list"
  rd_ratings :: "rating list"

definition recipe_detail_dump :: "db \<Rightarrow> recipe \<Rightarrow> recipe_detail" where
  "recipe_detail_dump d recipe =
     \<lparr>rd_recipe = recipe,
      rd_ingredients = sort_key i_order (filter (\<lambda>i. i_recipe_id i = r_id recipe) (ingredients d)),
      rd_ratings = rev (filter (\<lambda>r. rt_recipe_id r = r_id recipe) (ratings d))\<rparr>"

definition recipe_get :: "db \<Rightarrow> credentials \<Rightarrow> nat \<Rightarrow> recipe_detail response" where
  "recipe_get d creds recipe_id =
     (case Recipe_query_get d recipe_id of
        None \<Rightarrow> not_found_response ''Recipe not found''
      | Some recipe \<Rightarrow>
          let ok = success_response (Some (recipe_detail_dump d recipe))
                     ''Recipe retrieved successfully'' 200
          in if \<not> r_is_published recipe
             then (case creds of
                     InvalidToken \<Rightarrow> forbidden_response ''This recipe is not published''
                   | _ \<Rightarrow>
                       let current_user_id = (case creds of Token i \<Rightarrow> i | _ \<Rightarrow> PyNone)
                       in if current_user_id \<noteq> PyInt (int (r_user_id recipe))
                          then (case User_query_get d current_user_id of
                                  Some user \<Rightarrow>
                                    if u_is_admin user then ok
                                    else forbidden_response ''This recipe is not published''
                                | None \<Rightarrow> forbidden_response ''This recipe is not published'')
                          else ok)
             else ok)"

text \<open>RecipeDetailResource.delete; the relationships cascade to ingredients and ratings.\<close>

definition recipe_delete :: "db \<Rightarrow> pyval \<Rightarrow> nat \<Rightarrow> recipe response \<times> db" where
  "recipe_delete d current_user_id recipe_id =
     (case Recipe_query_get d recipe_id of
        None \<Rightarrow> (not_found_response ''Recipe not found'', d)
      | Some recipe \<Rightarrow>
          (case recipe_permission d recipe current_user_id of
             Raise \<Rightarrow> (error_response ''Error deleting recipe: '' 500, d)
           | Deny \<Rightarrow> (forbidden_response ''You don't have permission to delete this recipe'', d)
           | Allow \<Rightarrow>
               (success_response None ''Recipe deleted successfully'' 200,
                d\<lparr>recipes := filter (\<lambda>r. r_id r \<noteq> r_id recipe) (recipes d),
                  ingredients := filter (\<lambda>i. i_recipe_id i \<noteq> r_id recipe) (ingredients d),
                  ratings := filter (\<lambda>r. rt_recipe_id r \<noteq> r_id recipe) (ratings d)\<rparr>)))"

section \<open>Categories (api/v1/categories.py, schemas/category_schema.py)\<close>

record category_json =
  cj_name :: "string field"
  cj_description :: "string field"
  cj_image :: "string field"

definition category_json_empty :: "category_json \<Rightarrow> bool" where
  "category_json_empty j =
     (cj_name j = Missing \<and> cj_description j = Missing \<and> cj_image j = Missing)"

definition opt_str_ok :: "nat \<Rightarrow> string field \<Rightarrow> bool" where
  "opt_str_ok n f = (case f of Missing \<Rightarrow> True | Null \<Rightarrow> False | Val s \<Rightarrow> length s \<le> n)"

definition field_get :: "'a field \<Rightarrow> 'a option" where
  "field_get f = (case f of Val x \<Rightarrow> Some x | _ \<Rightarrow> None)"

text \<open>CategoryCreateSchema: name of 2 to 50 characters; description up to 500 and image
  up to 255 characters. The result is the name with the other two fields as given.\<close>

definition category_create_schema_load ::
  "category_json \<Rightarrow> (string \<times> string option \<times> string option) option" where
  "category_create_schema_load j =
     (case cj_name j of
        Val n \<Rightarrow>
          (if 2 \<le> length n \<and> length n \<le> 50 \<and> opt_str_ok 500 (cj_description j)
              \<and> opt_str_ok 255 (cj_image j)
           then Some (n, field_get (cj_description j), field_get (cj_image j))
           else None)
      | _ \<Rightarrow> None)"

text \<open>\<open>db.session.add(new_category); db.session.commit()\<close>; the columns \<open>name\<close> and
  \<open>slug\<close> are both unique.\<close>

definition db_add_category :: "db \<Rightarrow> category \<Rightarrow> db_error + category \<times> db" where
  "db_add_category d new_category =
     (if c_name new_category \<in> set (map c_name (categories d))
         \<or> c_slug new_category \<in> set (map c_slug (categories d))
      then Inl IntegrityError
      else
        let c = new_category\<lparr>c_id := next_id (map c_id (categories d))\<rparr>
        in Inr (c, d\<lparr>categories := categories d @ [c]\<rparr>))"

definition is_admin_user :: "db \<Rightarrow> pyval \<Rightarrow> bool" where
  "is_admin_user d current_user_id =
     (case User_query_get d current_user_id of None \<Rightarrow> False | Some user \<Rightarrow> u_is_admin user)"

definition category_post ::
  "db \<Rightarrow> pyval \<Rightarrow> category_json option \<Rightarrow> category response \<times> db" where
  "category_post d current_user_id json_data =
     (if \<not> is_admin_user d current_user_id
      then (forbidden_response ''Admin privileges required to create categories'', d)
      else
        (case json_data of
           None \<Rightarrow> (error_response ''No input data provided'' 400, d)
         | Some j \<Rightarrow>
             if category_json_empty j then (error_response ''No input data provided'' 400, d)
             else
               (case category_create_schema_load j of
                  None \<Rightarrow> (validation_error_response, d)
                | Some (name, description, img) \<Rightarrow>
                    if name \<in> set (map c_name (categories d))
                    then (error_response ''Category with this name already exists'' 400, d)
                    else
                      (case db_add_category d
                              \<lparr>c_id = 0, c_name = name, c_slug = Category_generate_slug name,
                               c_description = description, c_image = img\<rparr> of
                         Inr (new_category, d') \<Rightarrow>
                           (success_response (Some new_category)
                              ''Category created successfully'' 201, d')
                       | Inl IntegrityError \<Rightarrow>
                           (error_response ''Category with this name already exists'' 400, d)
                       | Inl DataError \<Rightarrow> (error_response ''An error occurred: '' 500, d)))))"

text \<open>CategoryDetailResource.delete; \<open>category.recipes.count()\<close> counts the recipes that
  refer to the category.\<close>

definition category_recipe_count :: "db \<Rightarrow> category \<Rightarrow> nat" where
  "category_recipe_count d category =
     length (filter (\<lambda>r. r_category_id r = c_id category) (recipes d))"

definition category_delete :: "db \<Rightarrow> pyval \<Rightarrow> nat \<Rightarrow> category response \<times> db" where
  "category_delete d current_user_id category_id =
     (if \<not> is_admin_user d current_user_id
      then (forbidden_response ''Admin privileges required to delete categories'', d)
      else
        (case Category_query_get d category_id of
           None \<Rightarrow> (not_found_response ''Category not found'', d)
         | Some category \<Rightarrow>
             let recipe_count = category_recipe_count d category
             in if recipe_count > 0
                then (error_response
                        (''Cannot delete category with '' @ str_nat recipe_count
                           @ '' recipe(s). Please reassign or delete recipes first.'') 400, d)
                else
                  (success_response None ''Category deleted successfully'' 200,
                   d\<lparr>categories := filter (\<lambda>c. c_id c \<noteq> c_id category) (categories d)\<rparr>)))"

section \<open>Ingredients in bulk (api/v1/ingredients.py, schemas/ingredient_schema.py)\<close>

record ingredient_json =
  ij_name :: "string field"
  ij_quantity :: "string field"
  ij_unit :: "string field"
  ij_notes :: "string field"
  ij_order :: "int field"

text \<open>
  What \<open>IngredientCreateSchema.load\<close> returns for one item. \<open>iv_order\<close> is the entry
  \<open>'order'\<close> of the loaded dictionary, \<open>None\<close> when the dictionary has no such key.
\<close>

record ingredient_validated =
  iv_name :: string
  iv_quantity :: string
  iv_unit :: "string option"
  iv_notes :: "string option"
  iv_order :: "int option"

text \<open>
  IngredientCreateSchema: name of 1 to 100 and quantity of 1 to 50 characters, both
  required; unit of at most 20 characters or null; notes a string or null; order an
  integer from 0 on, declared with \<open>load_default=0\<close>, so the loaded dictionary always
  has the key \<open>'order'\<close>.
\<close>

definition ingredient_create_schema_load :: "ingredient_json \<Rightarrow> ingredient_validated option" where
  "ingredient_create_schema_load j =
     (case (ij_name j, ij_quantity j) of
        (Val n, Val q) \<Rightarrow>
          (if 1 \<le> length n \<and> length n \<le> 100 \<and> 1 \<le> length q \<and> length q \<le> 50
              \<and> (case ij_unit j of Val u \<Rightarrow> length u \<le> 20 | _ \<Rightarrow> True)
              \<and> (case ij_order j of Val k \<Rightarrow> 0 \<le> k | Null \<Rightarrow> False | Missing \<Rightarrow> True)
           then Some \<lparr>iv_name = n, iv_quantity = q, iv_unit = field_get (ij_unit j),
                  iv_notes = field_get (ij_notes j),
                  iv_order = Some (case ij_order j of Val k \<Rightarrow> k | _ \<Rightarrow> 0)\<rparr>
           else None)
      | _ \<Rightarrow> None)"

text \<open>IngredientBulkCreateSchema: a list of 1 to 50 items, each valid.\<close>

definition ingredient_bulk_create_schema_load ::
  "ingredient_json list \<Rightarrow> ingredient_validated list option" where
  "ingredient_bulk_create_schema_load items =
     (if 1 \<le> length items \<and> length items \<le> 50
      then those (map ingredient_create_schema_load items) else None)"

text \<open>
  The loop of IngredientBulkCreateResource.post over \<open>enumerate(validated_data['ingredients'])\<close>,
  with \<^verbatim>\<open>order=ingredient_data.get('order', idx)\<close>.
\<close>

definition new_ingredient :: "nat \<Rightarrow> nat \<times> ingredient_validated \<Rightarrow> ingredient" where
  "new_ingredient recipe_id p =
     (case p of (idx, ingredient_data) \<Rightarrow>
        \<lparr>i_id = 0, i_name = iv_name ingredient_data, i_quantity = iv_quantity ingredient_data,
         i_unit = iv_unit ingredient_data, i_notes = iv_notes ingredient_data,
         i_order = (case iv_order ingredient_data of Some k \<Rightarrow> k | None \<Rightarrow> int idx),
         i_recipe_id = recipe_id\<rparr>)"

text \<open>\<open>db.session.add_all(new_ingredients); db.session.commit()\<close>\<close>

definition db_add_all_ingredients :: "db \<Rightarrow> ingredient list \<Rightarrow> ingredient list \<times> db" where
  "db_add_all_ingredients d new_ingredients =
     (let first = next_id (map i_id (ingredients d));
          rows = map (\<lambda>(k, i). i\<lparr>i_id := first + k\<rparr>) (enumerate 0 new_ingredients)
      in (rows, d\<lparr>ingredients := ingredients d @ rows\<rparr>))"

record bulk_created =
  bc_recipe_id :: nat
  bc_ingredients :: "ingredient list"
  bc_total_added :: nat

text \<open>The body is \<open>None\<close> without JSON and \<open>Some items\<close> for \<open>{"ingredients": items}\<close>.\<close>

definition ingredient_bulk_post ::
  "db \<Rightarrow> pyval \<Rightarrow> nat \<Rightarrow> ingredient_json list option \<Rightarrow> bulk_created response \<times> db" where
  "ingredient_bulk_post d current_user_id recipe_id json_data =
     (case Recipe_query_get d recipe_id of
        None \<Rightarrow> (not_found_response ''Recipe not found'', d)
      | Some recipe \<Rightarrow>
          (case recipe_permission d recipe current_user_id of
             Raise \<Rightarrow> (error_response ''Error adding ingredients: '' 500, d)
           | Deny \<Rightarrow>
               (forbidden_response
                  ''You don't have permission to add ingredients to this recipe'', d)
           | Allow \<Rightarrow>
               (case json_data of
                  None \<Rightarrow> (error_response ''No input data provided'' 400, d)
                | Some items \<Rightarrow>
                    (case ingredient_bulk_create_schema_load items of
                       None \<Rightarrow> (validation_error_response, d)
                     | Some validated \<Rightarrow>
                         (case db_add_all_ingredients d
                                 (map (new_ingredient recipe_id) (enumerate 0 validated)) of
                            (rows, d') \<Rightarrow>
                              (success_response
                                 (Some \<lparr>bc_recipe_id = recipe_id, bc_ingredients = rows,
                                        bc_total_added = length rows\<rparr>)
                                 (str_nat (length rows) @ '' ingredients added successfully'')
                                 201, d'))))))"

text \<open>
  IngredientBulkUpdateResource.put reads the raw JSON, without a schema. An entry is
  modelled as an object whose fields, when present, hold a value that the column accepts:
  an integer id and order, a string name and quantity, a string or null unit and notes.
\<close>

record ingredient_patch =
  ip_id :: "nat option"
  ip_name :: "string option"
  ip_quantity :: "string option"
  ip_unit :: "string field"
  ip_notes :: "string field"
  ip_order :: "int option"

definition apply_patch :: "ingredient \<Rightarrow> ingredient_patch \<Rightarrow> ingredient" where
  "apply_patch i p =
     i\<lparr>i_name := (case ip_name p of Some n \<Rightarrow> n | None \<Rightarrow> i_name i),
       i_quantity := (case ip_quantity p of Some q \<Rightarrow> q | None \<Rightarrow> i_quantity i),
       i_unit := (case ip_unit p of Missing \<Rightarrow> i_unit i | Null \<Rightarrow> None | Val u \<Rightarrow> Some u),
       i_notes := (case ip_notes p of Missing \<Rightarrow> i_notes i | Null \<Rightarrow> None | Val n \<Rightarrow> Some n),
       i_order := (case ip_order p of Some k \<Rightarrow> k | None \<Rightarrow> i_order i)\<rparr>"

text \<open>\<open>Ingredient.query.filter_by(id=ingredient_data['id'], recipe_id=recipe_id).first()\<close>\<close>

definition Ingredient_by_id_recipe :: "ingredient list \<Rightarrow> nat \<Rightarrow> nat \<Rightarrow> ingredient option" where
  "Ingredient_by_id_recipe rows ingredient_id recipe_id =
     find (\<lambda>i. i_id i = ingredient_id \<and> i_recipe_id i = recipe_id) rows"

text \<open>
  The loop over \<open>ingredients_list\<close>: the rows of the table as changed so far, and the ids
  of the rows appended to \<open>updated_ingredients\<close>, in order.
\<close>

fun bulk_update_loop ::
  "nat \<Rightarrow> ingredient list \<Rightarrow> ingredient_patch list \<Rightarrow> ingredient list \<times> nat list" where
  "bulk_update_loop recipe_id rows [] = (rows, [])"
| "bulk_update_loop recipe_id rows (ingredient_data # rest) =
     (case ip_id ingredient_data of
        None \<Rightarrow> bulk_update_loop recipe_id rows rest
      | Some k \<Rightarrow>
          (case Ingredient_by_id_recipe rows k recipe_id of
             None \<Rightarrow> bulk_update_loop recipe_id rows rest
           | Some ingredient \<Rightarrow>
               (case bulk_update_loop recipe_id
                       (map (\<lambda>i. if i_id i = i_id ingredient then apply_patch i ingredient_data
                                  else i) rows) rest of
                  (rows', updated) \<Rightarrow> (rows', k # updated))))"

record bulk_updated =
  bu_recipe_id :: nat
  bu_ingredients :: "ingredient list"
  bu_total_updated :: nat

text \<open>The body is \<open>None\<close> without JSON or without the key \<open>'ingredients'\<close>.\<close>

definition ingredient_bulk_put ::
  "db \<Rightarrow> pyval \<Rightarrow> nat \<Rightarrow> ingredient_patch list option \<Rightarrow> bulk_updated response \<times> db" where
  "ingredient_bulk_put d current_user_id recipe_id json_data =
     (case Recipe_query_get d recipe_id of
        None \<Rightarrow> (not_found_response ''Recipe not found'', d)
      | Some recipe \<Rightarrow>
          (case recipe_permission d recipe current_user_id of
             Raise \<Rightarrow> (error_response ''Error updating ingredients: '' 500, d)
           | Deny \<Rightarrow>
               (forbidden_response
                  ''You don't have permission to update ingredients for this recipe'', d)
           | Allow \<Rightarrow>
               (case json_data of
                  None \<Rightarrow>
                    (error_response
                       ''No input data provided or missing 'ingredients' field'' 400, d)
                | Some ingredients_list \<Rightarrow>
                    if length ingredients_list = 0
                    then (error_response ''Ingredients must be a non-empty list'' 400, d)
                    else
                      (case bulk_update_loop recipe_id (ingredients d) ingredients_list of
                         (rows, updated) \<Rightarrow>
                           (success_response
                              (Some \<lparr>bu_recipe_id = recipe_id,
                                     bu_ingredients =
                                       List.map_filter
                                         (\<lambda>k. Ingredient_by_id_recipe rows k recipe_id) updated,
                                     bu_total_updated = length updated\<rparr>)
                              (str_nat (length updated) @ '' ingredients updated successfully'')
                              200,
                            d\<lparr>ingredients := rows\<rparr>)))))"

text \<open>An entry that has an \<open>id\<close> which is the id of an ingredient of the recipe.\<close>

definition patch_matches :: "ingredient list \<Rightarrow> nat \<Rightarrow> ingredient_patch \<Rightarrow> bool" where
  "patch_matches rows recipe_id p =
     (case ip_id p of None \<Rightarrow> False | Some k \<Rightarrow> Ingredient_by_id_recipe rows k recipe_id \<noteq> None)"

section \<open>Aggregation (models/recipe.py, schemas/recipe_schema.py, api/v1/ratings.py)\<close>

text \<open>
  The averages and percentages are Python floats. Their arithmetic is not part of the
  repository; it enters the model as the operations that the code calls, over a type
  \<open>'f\<close> of floats: the division \<open>a / b\<close> of two integers, the product \<open>x * n\<close> of a
  float and an integer, \<open>round(x, ndigits)\<close>, and the truth value of a float.
\<close>

record 'f float_ops =
  truediv :: "int \<Rightarrow> int \<Rightarrow> 'f"
  mul_int :: "'f \<Rightarrow> int \<Rightarrow> 'f"
  round_to :: "'f \<Rightarrow> nat \<Rightarrow> 'f"
  truth :: "'f \<Rightarrow> bool"

datatype 'f pynum = IntNum int | FloatNum 'f

definition pynum_truth :: "'f float_ops \<Rightarrow> 'f pynum \<Rightarrow> bool" where
  "pynum_truth ops v = (case v of IntNum i \<Rightarrow> i \<noteq> 0 | FloatNum x \<Rightarrow> truth ops x)"

definition pynum_round :: "'f float_ops \<Rightarrow> 'f pynum \<Rightarrow> nat \<Rightarrow> 'f pynum" where
  "pynum_round ops v n = (case v of IntNum i \<Rightarrow> IntNum i | FloatNum x \<Rightarrow> FloatNum (round_to ops x n))"

definition recipe_ratings :: "db \<Rightarrow> nat \<Rightarrow> rating list" where
  "recipe_ratings d recipe_id = filter (\<lambda>r. rt_recipe_id r = recipe_id) (ratings d)"

text \<open>\<open>Recipe.average_rating\<close>\<close>

definition Recipe_average_rating :: "'f float_ops \<Rightarrow> db \<Rightarrow> recipe \<Rightarrow> 'f pynum" where
  "Recipe_average_rating ops d recipe =
     (let rs = recipe_ratings d (r_id recipe)
      in if length rs = 0 then IntNum 0
         else FloatNum (round_to ops
                (truediv ops (sum_list (map rt_score rs)) (int (length rs))) 2))"

text \<open>The entries \<open>'average_rating'\<close> and \<open>'rating_count'\<close> of \<open>Recipe.to_dict\<close>.\<close>

definition Recipe_to_dict_ratings :: "'f float_ops \<Rightarrow> db \<Rightarrow> recipe \<Rightarrow> 'f pynum \<times> nat" where
  "Recipe_to_dict_ratings ops d recipe =
     (Recipe_average_rating ops d recipe, length (recipe_ratings d (r_id recipe)))"

text \<open>
  \<open>RecipeResponseSchema.get_average_rating\<close>, the field \<open>average_rating\<close> of every recipe
  that the API serialises: \<^verbatim>\<open>return round(avg, 2) if avg else None\<close>.
\<close>

definition get_average_rating :: "'f float_ops \<Rightarrow> db \<Rightarrow> recipe \<Rightarrow> 'f pynum option" where
  "get_average_rating ops d recipe =
     (let avg = Recipe_average_rating ops d recipe
      in if pynum_truth ops avg then Some (pynum_round ops avg 2) else None)"

text \<open>RecipeRatingStatsResource.get\<close>

record 'a stars =
  five_stars :: 'a
  four_stars :: 'a
  three_stars :: 'a
  two_stars :: 'a
  one_star :: 'a

record 'f rating_stats =
  st_recipe_id :: nat
  st_recipe_title :: string
  st_total_ratings :: nat
  st_average_rating :: "'f option"
  st_distribution :: "nat stars"
  st_distribution_percentages :: "'f stars option"

definition count_score :: "rating list \<Rightarrow> int \<Rightarrow> nat" where
  "count_score rs k = length (filter (\<lambda>r. rt_score r = k) rs)"

definition percentage :: "'f float_ops \<Rightarrow> nat \<Rightarrow> nat \<Rightarrow> 'f" where
  "percentage ops n total_ratings =
     round_to ops (mul_int ops (truediv ops (int n) (int total_ratings)) 100) 1"

definition rating_stats_get :: "'f float_ops \<Rightarrow> db \<Rightarrow> nat \<Rightarrow> 'f rating_stats response" where
  "rating_stats_get ops d recipe_id =
     (case Recipe_query_get d recipe_id of
        None \<Rightarrow> not_found_response ''Recipe not found''
      | Some recipe \<Rightarrow>
          let rs = recipe_ratings d recipe_id
          in if rs = []
             then success_response
                    (Some \<lparr>st_recipe_id = recipe_id, st_recipe_title = r_title recipe,
                           st_total_ratings = 0, st_average_rating = None,
                           st_distribution = \<lparr>five_stars = 0, four_stars = 0, three_stars = 0,
                             two_stars = 0, one_star = 0\<rparr>,
                           st_distribution_percentages = None\<rparr>)
                    ''No ratings yet for this recipe'' 200
             else
               let total_ratings = length rs;
                   average_rating = truediv ops (sum_list (map rt_score rs)) (int total_ratings);
                   distribution = \<lparr>five_stars = count_score rs 5, four_stars = count_score rs 4,
                     three_stars = count_score rs 3, two_stars = count_score rs 2,
                     one_star = count_score rs 1\<rparr>
               in success_response
                    (Some \<lparr>st_recipe_id = recipe_id, st_recipe_title = r_title recipe,
                           st_total_ratings = total_ratings,
                           st_average_rating = Some (round_to ops average_rating 2),
                           st_distribution = distribution,
                           st_distribution_percentages =
                             Some \<lparr>five_stars = percentage ops (five_stars distribution) total_ratings,
                               four_stars = percentage ops (four_stars distribution) total_ratings,
                               three_stars = percentage ops (three_stars distribution) total_ratings,
                               two_stars = percentage ops (two_stars distribution) total_ratings,
                               one_star = percentage ops (one_star distribution) total_ratings\<rparr>\<rparr>)
                    ''Rating statistics retrieved successfully'' 200)"

text \<open>
  Two facts of Python's floats that the response schema relies on: rounding to two
  decimals a value that is already rounded to two decimals changes nothing, and the
  rounded quotient of a sum by a count that is not larger is not zero.
\<close>

definition float_laws :: "'f float_ops \<Rightarrow> bool" where
  "float_laws ops =
     ((\<forall>x. round_to ops (round_to ops x 2) 2 = round_to ops x 2)
      \<and> (\<forall>s n. 0 < n \<and> n \<le> s \<longrightarrow> truth ops (round_to ops (truediv ops s n) 2)))"

text \<open>
  An instance for the evaluation of examples: exact rational arithmetic, with rounding
  to the nearest decimal and ties to the even one. The rounding of the quotient to a
  binary float is not part of it.
\<close>

definition round_half_even :: "rat \<Rightarrow> int" where
  "round_half_even x =
     (let f = \<lfloor>x\<rfloor>; r = x - of_int f
      in if r < 1 / 2 then f else if 1 / 2 < r then f + 1 else if even f then f else f + 1)"

definition exact_ops :: "rat float_ops" where
  "exact_ops =
     \<lparr>truediv = (\<lambda>a b. of_int a / of_int b),
      mul_int = (\<lambda>x n. x * of_int n),
      round_to = (\<lambda>x n. of_int (round_half_even (x * 10 ^ n)) / 10 ^ n),
      truth = (\<lambda>x. x \<noteq> 0)\<rparr>"

section \<open>Reachable stores\<close>

text \<open>
  The stores that the handlers above produce from a store that holds users only. The
  handlers outside this model (registration and login, the handlers of single
  ingredients, and the updates of recipes and categories) do not write the table of
  ratings, and none of them removes a recipe.
\<close>

definition initial_db :: "user list \<Rightarrow> db" where
  "initial_db us = \<lparr>users = us, categories = [], recipes = [], ingredients = [], ratings = []\<rparr>"

inductive reachable :: "db \<Rightarrow> bool" where
  init: "reachable (initial_db us)"
| rating_post: "reachable d \<Longrightarrow> reachable (snd (rating_post d ident recipe_id body))"
| rating_put: "reachable d \<Longrightarrow> reachable (snd (rating_put d ident recipe_id rating_id body))"
| rating_delete: "reachable d \<Longrightarrow> reachable (snd (rating_delete d ident recipe_id rating_id))"
| recipe_post: "reachable d \<Longrightarrow> reachable (snd (recipe_post d ident rbody))"
| recipe_delete: "reachable d \<Longrightarrow> reachable (snd (recipe_delete d ident recipe_id))"
| category_post: "reachable d \<Longrightarrow> reachable (snd (category_post d ident cbody))"
| category_delete: "reachable d \<Longrightarrow> reachable (snd (category_delete d ident category_id))"
| ingredient_bulk_post:
    "reachable d \<Longrightarrow> reachable (snd (ingredient_bulk_post d ident recipe_id ibody))"
| ingredient_bulk_put:
    "reachable d \<Longrightarrow> reachable (snd (ingredient_bulk_put d ident recipe_id pbody))"

text \<open>
  What holds of the ratings in every reachable store: no two rows share their pair of
  user and recipe, every score is from 1 to 5, and every rating refers to a recipe of
  the store.
\<close>

definition ratings_ok :: "db \<Rightarrow> bool" where
  "ratings_ok d =
     (distinct (map rating_key (ratings d))
      \<and> list_all (\<lambda>r. 1 \<le> rt_score r \<and> rt_score r \<le> 5) (ratings d)
      \<and> list_all (\<lambda>r. rt_recipe_id r \<in> set (map r_id (recipes d))) (ratings d))"

section \<open>Stores used to evaluate the handlers\<close>

text \<open>
  An administrator (user 1) and two ordinary users; two categories, the second without
  recipes; an unpublished recipe of user 2 with two ingredients; a rating of that recipe
  by user 3. The handlers produce this store too, as shown below.
\<close>

definition example_db :: db where
  "example_db =
     \<lparr>users =
        [\<lparr>u_id = 1, u_username = ''root'', u_is_admin = True\<rparr>,
         \<lparr>u_id = 2, u_username = ''alice'', u_is_admin = False\<rparr>,
         \<lparr>u_id = 3, u_username = ''bob'', u_is_admin = False\<rparr>],
      categories =
        [\<lparr>c_id = 1, c_name = ''Main Dishes'', c_slug = ''main-dishes'',
          c_description = None, c_image = None\<rparr>,
         \<lparr>c_id = 2, c_name = ''Desserts'', c_slug = ''desserts'',
          c_description = None, c_image = None\<rparr>],
      recipes =
        [\<lparr>r_id = 1, r_title = ''Spicy Chicken'', r_slug = ''spicy-chicken'',
          r_instructions = ''Fry the chicken.'', r_is_published = False,
          r_user_id = 2, r_category_id = 1\<rparr>],
      ingredients =
        [\<lparr>i_id = 1, i_name = ''chicken'', i_quantity = ''1'', i_unit = Some ''kg'',
          i_notes = None, i_order = 0, i_recipe_id = 1\<rparr>,
         \<lparr>i_id = 2, i_name = ''chili'', i_quantity = ''2'', i_unit = None,
          i_notes = None, i_order = 1, i_recipe_id = 1\<rparr>],
      ratings =
        [\<lparr>rt_id = 1, rt_score = 4, rt_comment = None, rt_user_id = 3, rt_recipe_id = 1\<rparr>]\<rparr>"

text \<open>
  Stores produced by the handlers themselves: the administrator creates a category and
  user 2 creates a published recipe in it (\<open>unrated_db\<close>); user 2 rates it with 5
  (\<open>rated_db\<close>); user 3 and the administrator rate it with 4 each (\<open>stats_db\<close>).
\<close>

definition unrated_db :: db where
  "unrated_db =
     snd (recipe_post
       (snd (category_post
         (initial_db [\<lparr>u_id = 1, u_username = ''root'', u_is_admin = True\<rparr>,
                      \<lparr>u_id = 2, u_username = ''alice'', u_is_admin = False\<rparr>,
                      \<lparr>u_id = 3, u_username = ''bob'', u_is_admin = False\<rparr>])
         (create_access_token 1)
         (Some \<lparr>cj_name = Val ''Main Dishes'', cj_description = Missing, cj_image = Missing\<rparr>)))
       (create_access_token 2)
       (Some \<lparr>rj_title = Val ''Spicy Chicken!!'', rj_instructions = Val ''Fry the chicken.'',
              rj_category_id = Val 1, rj_is_published = Val True\<rparr>))"

definition rated_db :: db where
  "rated_db =
     snd (rating_post unrated_db (create_access_token 2) 1
       (Some \<lparr>j_score = Val 5, j_comment = Missing\<rparr>))"

definition stats_db :: db where
  "stats_db =
     snd (rating_post
       (snd (rating_post rated_db (create_access_token 3) 1
         (Some \<lparr>j_score = Val 4, j_comment = Missing\<rparr>)))
       (create_access_token 1) 1 (Some \<lparr>j_score = Val 4, j_comment = Missing\<rparr>))"

text \<open>
  A store with three recipes: on \<open>stats_db\<close>, user 3 creates a second recipe, which
  user 2 rates with 2 and the administrator with 1, and a third recipe, which nobody
  rates.
\<close>

definition three_recipe_db :: db where
  "three_recipe_db =
     snd (recipe_post
       (snd (rating_post
         (snd (rating_post
           (snd (recipe_post stats_db (create_access_token 3)
             (Some \<lparr>rj_title = Val ''Hot Soup'', rj_instructions = Val ''Boil the water.'',
                    rj_category_id = Val 1, rj_is_published = Val True\<rparr>)))
           (create_access_token 2) 2 (Some \<lparr>j_score = Val 2, j_comment = Missing\<rparr>)))
         (create_access_token 1) 2 (Some \<lparr>j_score = Val 1, j_comment = Missing\<rparr>)))
       (create_access_token 3)
       (Some \<lparr>rj_title = Val ''Plain Rice'', rj_instructions = Val ''Steam the rice.'',
              rj_category_id = Val 1, rj_is_published = Val True\<rparr>))"

section \<open>Verified properties\<close>

subsection \<open>Evaluation of the example stores\<close>

lemma example_db_built:
  "example_db =
     snd (rating_post
       (snd (ingredient_bulk_post
         (snd (recipe_post
           (snd (category_post
             (snd (category_post
               (initial_db [\<lparr>u_id = 1, u_username = ''root'', u_is_admin = True\<rparr>,
                            \<lparr>u_id = 2, u_username = ''alice'', u_is_admin = False\<rparr>,
                            \<lparr>u_id = 3, u_username = ''bob'', u_is_admin = False\<rparr>])
               (create_access_token 1)
               (Some \<lparr>cj_name = Val ''Main Dishes'', cj_description = Missing,
                      cj_image = Missing\<rparr>)))
             (create_access_token 1)
             (Some \<lparr>cj_name = Val ''Desserts'', cj_description = Missing,
                    cj_image = Missing\<rparr>)))
           (create_access_token 2)
           (Some \<lparr>rj_title = Val ''Spicy Chicken'', rj_instructions = Val ''Fry the chicken.'',
                  rj_category_id = Val 1, rj_is_published = Missing\<rparr>)))
         (create_access_token 1) 1
         (Some [\<lparr>ij_name = Val ''chicken'', ij_quantity = Val ''1'', ij_unit = Val ''kg'',
                 ij_notes = Missing, ij_order = Val 0\<rparr>,
                \<lparr>ij_name = Val ''chili'', ij_quantity = Val ''2'', ij_unit = Missing,
                 ij_notes = Missing, ij_order = Val 1\<rparr>])))
       (create_access_token 3) 1 (Some \<lparr>j_score = Val 4, j_comment = Missing\<rparr>))"
  by code_simp

lemma example_db_reachable: "reachable example_db"
  unfolding example_db_built by (intro reachable.intros)

lemma unrated_db_reachable: "reachable unrated_db"
  unfolding unrated_db_def by (intro reachable.intros)

lemma rated_db_reachable: "reachable rated_db"
  unfolding rated_db_def by (intro reachable.intros unrated_db_reachable)

lemma stats_db_reachable: "reachable stats_db"
  unfolding stats_db_def by (intro reachable.intros rated_db_reachable)

lemma unrated_db_value:
  "unrated_db =
     \<lparr>users = [\<lparr>u_id = 1, u_username = ''root'', u_is_admin = True\<rparr>,
               \<lparr>u_id = 2, u_username = ''alice'', u_is_admin = False\<rparr>,
               \<lparr>u_id = 3, u_username = ''bob'', u_is_admin = False\<rparr>],
      categories = [\<lparr>c_id = 1, c_name = ''Main Dishes'', c_slug = ''main-dishes'',
                     c_description = None, c_image = None\<rparr>],
      recipes = [\<lparr>r_id = 1, r_title = ''Spicy Chicken!!'', r_slug = ''spicy-chicken'',
                  r_instructions = ''Fry the chicken.'', r_is_published = True,
                  r_user_id = 2, r_category_id = 1\<rparr>],
      ingredients = [],
      ratings = []\<rparr>"
  by code_simp

lemma stats_db_value:
  "stats_db =
     \<lparr>users = [\<lparr>u_id = 1, u_username = ''root'', u_is_admin = True\<rparr>,
               \<lparr>u_id = 2, u_username = ''alice'', u_is_admin = False\<rparr>,
               \<lparr>u_id = 3, u_username = ''bob'', u_is_admin = False\<rparr>],
      categories = [\<lparr>c_id = 1, c_name = ''Main Dishes'', c_slug = ''main-dishes'',
                     c_description = None, c_image = None\<rparr>],
      recipes = [\<lparr>r_id = 1, r_title = ''Spicy Chicken!!'', r_slug = ''spicy-chicken'',
                  r_instructions = ''Fry the chicken.'', r_is_published = True,
                  r_user_id = 2, r_category_id = 1\<rparr>],
      ingredients = [],
      ratings = [\<lparr>rt_id = 1, rt_score = 5, rt_comment = None, rt_user_id = 2,
                  rt_recipe_id = 1\<rparr>,
                 \<lparr>rt_id = 2, rt_score = 4, rt_comment = None, rt_user_id = 3,
                  rt_recipe_id = 1\<rparr>,
                 \<lparr>rt_id = 3, rt_score = 4, rt_comment = None, rt_user_id = 1,
                  rt_recipe_id = 1\<rparr>]\<rparr>"
  by code_simp

lemma rated_db_value:
  "rated_db =
     \<lparr>users = [\<lparr>u_id = 1, u_username = ''root'', u_is_admin = True\<rparr>,
               \<lparr>u_id = 2, u_username = ''alice'', u_is_admin = False\<rparr>,
               \<lparr>u_id = 3, u_username = ''bob'', u_is_admin = False\<rparr>],
      categories = [\<lparr>c_id = 1, c_name = ''Main Dishes'', c_slug = ''main-dishes'',
                     c_description = None, c_image = None\<rparr>],
      recipes = [\<lparr>r_id = 1, r_title = ''Spicy Chicken!!'', r_slug = ''spicy-chicken'',
                  r_instructions = ''Fry the chicken.'', r_is_published = True,
                  r_user_id = 2, r_category_id = 1\<rparr>],
      ingredients = [],
      ratings = [\<lparr>rt_id = 1, rt_score = 5, rt_comment = None, rt_user_id = 2,
                  rt_recipe_id = 1\<rparr>]\<rparr>"
  by code_simp

lemma sql_int_create_access_token: "sql_int (create_access_token u) = Some u"
  by (simp add: create_access_token_def sql_int_str_nat)

lemma create_access_token_examples:
  "create_access_token 1 = PyStr ''1''" "create_access_token 2 = PyStr ''2''"
  "create_access_token 3 = PyStr ''3''"
  by code_simp+

subsection \<open>Ownership of ratings\<close>

lemma rating_put_success_only_author:
  assumes "status_code (fst (rating_put d current_user_id recipe_id rating_id json_data)) = 200"
  shows "\<exists>rating. Rating_by_id_recipe d rating_id recipe_id = Some rating
           \<and> current_user_id = PyInt (int (rt_user_id rating))"
  using assms
  by (auto simp: rating_put_def not_found_response_def forbidden_response_def
        error_response_def validation_error_response_def
      split: option.splits if_splits)

lemma rating_delete_success_only_author:
  assumes "status_code (fst (rating_delete d current_user_id recipe_id rating_id)) = 200"
  shows "\<exists>rating. Rating_by_id_recipe d rating_id recipe_id = Some rating
           \<and> current_user_id = PyInt (int (rt_user_id rating))"
  using assms
  by (auto simp: rating_delete_def not_found_response_def forbidden_response_def
        error_response_def split: option.splits if_splits)

lemma rating_put_other_actor_forbidden:
  assumes "Recipe_query_get d recipe_id = Some recipe"
    and "Rating_by_id_recipe d rating_id recipe_id = Some rating"
    and "current_user_id \<noteq> PyInt (int (rt_user_id rating))"
  shows "rating_put d current_user_id recipe_id rating_id json_data =
           (forbidden_response ''You can only update your own ratings'', d)"
  using assms by (auto simp: rating_put_def)

lemma rating_delete_other_actor_forbidden:
  assumes "Recipe_query_get d recipe_id = Some recipe"
    and "Rating_by_id_recipe d rating_id recipe_id = Some rating"
    and "current_user_id \<noteq> PyInt (int (rt_user_id rating))"
  shows "rating_delete d current_user_id recipe_id rating_id =
           (forbidden_response ''You can only delete your own ratings'', d)"
  using assms by (auto simp: rating_delete_def)

text \<open>
  With the identity of a token that the API issued, the comparison
  \<open>rating.user_id != current_user_id\<close> is between an integer and a string, so every
  holder of a token is refused, the rating's author too.
\<close>

lemma rating_put_token_forbidden:
  assumes "Recipe_query_get d recipe_id = Some recipe"
    and "Rating_by_id_recipe d rating_id recipe_id = Some rating"
  shows "rating_put d (create_access_token u) recipe_id rating_id json_data =
           (forbidden_response ''You can only update your own ratings'', d)"
  using assms by (auto simp: rating_put_def create_access_token_def)

lemma rating_delete_token_forbidden:
  assumes "Recipe_query_get d recipe_id = Some recipe"
    and "Rating_by_id_recipe d rating_id recipe_id = Some rating"
  shows "rating_delete d (create_access_token u) recipe_id rating_id =
           (forbidden_response ''You can only delete your own ratings'', d)"
  using assms by (auto simp: rating_delete_def create_access_token_def)

text \<open>
  Claim C4. Update and delete of a rating are meant for its author alone. Evaluated on
  the example store, where rating 1 of recipe 1 was written by user 3: with the token
  issued to user 3, PUT and DELETE of that rating both answer 403 and leave the store as
  it was.
\<close>

theorem rating_author_put_delete_forbidden:
  "map_option rt_user_id (Rating_by_id_recipe example_db 1 1) = Some 3
   \<and> rating_put example_db (create_access_token 3) 1 1
       (Some \<lparr>j_score = Val 5, j_comment = Missing\<rparr>)
     = (forbidden_response ''You can only update your own ratings'', example_db)
   \<and> rating_delete example_db (create_access_token 3) 1 1
     = (forbidden_response ''You can only delete your own ratings'', example_db)"
  by code_simp

subsection \<open>One rating per user and recipe\<close>

lemma rating_create_schema_load_range:
  "rating_create_schema_load j = Some v \<Longrightarrow> 1 \<le> fst v \<and> fst v \<le> 5"
  by (auto simp: rating_create_schema_load_def split: field.splits if_splits)

lemma rating_update_schema_load_range:
  "rating_update_schema_load j = Some v \<Longrightarrow> v_score v = Some s \<Longrightarrow> 1 \<le> s \<and> s \<le> 5"
  by (auto simp: rating_update_schema_load_def split: field.splits if_splits)

lemma Recipe_query_get_in: "Recipe_query_get d k = Some r \<Longrightarrow> k \<in> set (map r_id (recipes d))"
  by (auto simp: Recipe_query_get_def find_Some_iff)

lemma rating_post_check_Inr:
  "rating_post_check d ident rid body = Inr v \<Longrightarrow>
     rid \<in> set (map r_id (recipes d)) \<and> 1 \<le> fst v \<and> fst v \<le> 5"
  by (auto simp: rating_post_check_def dest: Recipe_query_get_in rating_create_schema_load_range
      split: option.splits if_splits)

lemma rating_post_commit_ok:
  assumes "ratings_ok d" "rid \<in> set (map r_id (recipes d))" "1 \<le> fst v" "fst v \<le> 5"
  shows "ratings_ok (snd (rating_post_commit d v ident rid))"
  using assms
  by (auto simp: rating_post_commit_def db_add_rating_def ratings_ok_def rating_key_def Let_def
      split: option.splits sum.splits db_error.splits)

lemma rating_post_ok: "ratings_ok d \<Longrightarrow> ratings_ok (snd (rating_post d ident rid body))"
  by (auto simp: rating_post_def split: sum.splits
      dest!: rating_post_check_Inr intro: rating_post_commit_ok)

lemma map_key_update:
  "rating_key \<circ> (\<lambda>r. if P r then apply_rating_update r v else r) = rating_key"
  by (auto simp: fun_eq_iff rating_key_def apply_rating_update_def)

lemma rating_put_ok: "ratings_ok d \<Longrightarrow> ratings_ok (snd (rating_put d ident rid rtid body))"
  by (auto simp: rating_put_def ratings_ok_def map_key_update list_all_iff apply_rating_update_def
      dest: rating_update_schema_load_range
      split: option.splits if_splits)

lemma rating_delete_ok: "ratings_ok d \<Longrightarrow> ratings_ok (snd (rating_delete d ident rid rtid))"
  by (auto simp: rating_delete_def ratings_ok_def list_all_iff distinct_map_filter
      split: option.splits if_splits)

lemma recipe_post_ok: "ratings_ok d \<Longrightarrow> ratings_ok (snd (recipe_post d ident body))"
  by (auto simp: recipe_post_def db_add_recipe_def ratings_ok_def list_all_iff Let_def
      split: option.splits if_splits sum.splits)

lemma recipe_delete_ok: "ratings_ok d \<Longrightarrow> ratings_ok (snd (recipe_delete d ident rid))"
  by (auto simp: recipe_delete_def ratings_ok_def list_all_iff distinct_map_filter
      split: option.splits permission.splits)

lemma category_post_ok: "ratings_ok d \<Longrightarrow> ratings_ok (snd (category_post d ident body))"
  by (auto simp: category_post_def db_add_category_def ratings_ok_def Let_def
      split: option.splits if_splits sum.splits db_error.splits prod.splits)

lemma category_delete_ok: "ratings_ok d \<Longrightarrow> ratings_ok (snd (category_delete d ident cid))"
  by (auto simp: category_delete_def ratings_ok_def Let_def split: option.splits if_splits)

lemma ingredient_bulk_post_ok:
  "ratings_ok d \<Longrightarrow> ratings_ok (snd (ingredient_bulk_post d ident rid body))"
  by (auto simp: ingredient_bulk_post_def db_add_all_ingredients_def ratings_ok_def Let_def
      split: option.splits permission.splits prod.splits)

lemma ingredient_bulk_put_ok:
  "ratings_ok d \<Longrightarrow> ratings_ok (snd (ingredient_bulk_put d ident rid body))"
  by (auto simp: ingredient_bulk_put_def ratings_ok_def Let_def
      split: option.splits permission.splits prod.splits if_splits)

lemma reachable_ratings_ok: "reachable d \<Longrightarrow> ratings_ok d"
proof (induction rule: reachable.induct)
  case (init us)
  show ?case by (simp add: ratings_ok_def initial_db_def)
qed (simp_all add: rating_post_ok rating_put_ok rating_delete_ok recipe_post_ok recipe_delete_ok
      category_post_ok category_delete_ok ingredient_bulk_post_ok ingredient_bulk_put_ok)


lemma find_key_not_None:
  "(u, rid) \<in> set (map rating_key rs) \<Longrightarrow> find (\<lambda>r. rating_key r = (u, rid)) rs \<noteq> None"
  by (auto simp: find_None_iff)

lemma Recipe_query_get_not_None:
  "rid \<in> set (map r_id (recipes d)) \<Longrightarrow> Recipe_query_get d rid \<noteq> None"
  by (auto simp: Recipe_query_get_def find_None_iff)

lemma rated_recipe_exists:
  "ratings_ok d \<Longrightarrow> (u, rid) \<in> set (map rating_key (ratings d)) \<Longrightarrow>
     rid \<in> set (map r_id (recipes d))"
  by (auto simp: ratings_ok_def list_all_iff rating_key_def)

lemma rating_post_existing:
  assumes "ratings_ok d" "sql_int ident = Some u" "(u, rid) \<in> set (map rating_key (ratings d))"
  shows "rating_post d ident rid body =
           (error_response ''You have already rated this recipe. Use PUT to update your rating.'' 400, d)"
proof -
  obtain recipe where "Recipe_query_get d rid = Some recipe"
    using Recipe_query_get_not_None [OF rated_recipe_exists [OF assms(1,3)]] by blast
  moreover obtain r where "Rating_by_user_recipe d ident rid = Some r"
    using find_key_not_None [OF assms(3)] assms(2) by (auto simp: Rating_by_user_recipe_def)
  ultimately show ?thesis
    by (simp add: rating_post_def rating_post_check_def)
qed

lemma rating_post_commit_existing:
  assumes "sql_int ident = Some u" "(u, rid) \<in> set (map rating_key (ratings d))"
  shows "rating_post_commit d v ident rid =
           (error_response ''You have already rated this recipe'' 400, d)"
  using assms by (simp add: rating_post_commit_def db_add_rating_def)

lemma rating_post_check_status:
  "rating_post_check d ident rid body = Inl resp \<Longrightarrow> status_code resp \<in> {400, 404, 422}"
  by (auto simp: rating_post_check_def not_found_response_def error_response_def
        validation_error_response_def split: option.splits if_splits)

lemma rating_post_interleaved_existing:
  assumes "sql_int ident = Some u" "(u, rid) \<in> set (map rating_key (ratings d))"
  shows "snd (rating_post_interleaved d0 d ident rid body) = d
       \<and> status_code (fst (rating_post_interleaved d0 d ident rid body)) \<in> {400, 404, 422}"
  using assms
  by (auto simp: rating_post_interleaved_def rating_post_commit_existing error_response_def
      dest: rating_post_check_status split: sum.splits)

text \<open>
  Claim C1. In every reachable store no two ratings share their user and recipe. When the
  caller (the user \<open>u\<close> whom the store finds for the identity) has rated the recipe,
  POST answers 400 "already rated" and leaves the store as it is; the commit on such a
  store raises IntegrityError, which the handler answers with 400 "already rated" too,
  also when its reads were made on an earlier store \<open>d0\<close>.
\<close>

theorem rating_unique_per_user_recipe:
  assumes "reachable d"
  shows "distinct (map rating_key (ratings d))
     \<and> (\<forall>ident u recipe_id body.
          sql_int ident = Some u \<and> (u, recipe_id) \<in> set (map rating_key (ratings d)) \<longrightarrow>
            rating_post d ident recipe_id body =
              (error_response
                 ''You have already rated this recipe. Use PUT to update your rating.'' 400, d)
            \<and> (\<forall>validated_data. rating_post_commit d validated_data ident recipe_id =
                  (error_response ''You have already rated this recipe'' 400, d))
            \<and> (\<forall>d0. snd (rating_post_interleaved d0 d ident recipe_id body) = d
                  \<and> status_code (fst (rating_post_interleaved d0 d ident recipe_id body))
                      \<in> {400, 404, 422}))"
proof -
  have ok: "ratings_ok d"
    using assms by (rule reachable_ratings_ok)
  then have "distinct (map rating_key (ratings d))"
    by (simp add: ratings_ok_def)
  then show ?thesis
    using rating_post_existing [OF ok] rating_post_commit_existing
      rating_post_interleaved_existing
    by blast
qed

theorem rating_unique_per_user_recipe_witness:
  "reachable rated_db
   \<and> distinct (map rating_key (ratings rated_db))
   \<and> rating_post rated_db (create_access_token 2) 1 (Some \<lparr>j_score = Val 3, j_comment = Missing\<rparr>)
       = (error_response
            ''You have already rated this recipe. Use PUT to update your rating.'' 400, rated_db)
   \<and> rating_post_commit rated_db (3, None) (create_access_token 2) 1
       = (error_response ''You have already rated this recipe'' 400, rated_db)"
proof -
  have key: "(2, 1) \<in> set (map rating_key (ratings rated_db))"
    by (simp add: rated_db_value rating_key_def)
  show ?thesis
    using rating_unique_per_user_recipe [OF rated_db_reachable] rated_db_reachable key
      sql_int_create_access_token [of 2]
    by blast
qed

subsection \<open>Deleting a category\<close>

lemma category_delete_success_only_empty:
  assumes "status_code (fst (category_delete d current_user_id category_id)) = 200"
  shows "\<exists>category. Category_query_get d category_id = Some category
           \<and> category_recipe_count d category = 0 \<and> is_admin_user d current_user_id"
  using assms
  by (auto simp: category_delete_def Let_def forbidden_response_def not_found_response_def
        error_response_def split: option.splits if_splits)

lemma category_delete_blocked:
  assumes "is_admin_user d current_user_id"
    and "Category_query_get d category_id = Some category"
    and "0 < category_recipe_count d category"
  shows "category_delete d current_user_id category_id =
           (error_response
              (''Cannot delete category with '' @ str_nat (category_recipe_count d category)
                 @ '' recipe(s). Please reassign or delete recipes first.'') 400, d)"
  using assms by (simp add: category_delete_def Let_def)

lemma category_delete_empty:
  assumes "is_admin_user d current_user_id"
    and "Category_query_get d category_id = Some category"
    and "category_recipe_count d category = 0"
  shows "category_delete d current_user_id category_id =
           (success_response None ''Category deleted successfully'' 200,
            d\<lparr>categories := filter (\<lambda>c. c_id c \<noteq> c_id category) (categories d)\<rparr>)"
  using assms by (simp add: category_delete_def Let_def)

text \<open>
  Claim C8. An administrator's DELETE of a category to which at least one recipe refers
  answers 400 and changes nothing in the store; a DELETE that answers 200 was of a
  category without recipes, and an administrator's DELETE of such a category answers
  200 and removes that category only.
\<close>

theorem category_delete_guarded:
  "(is_admin_user d current_user_id \<and> Category_query_get d category_id = Some category
      \<and> 0 < category_recipe_count d category \<longrightarrow>
        status_code (fst (category_delete d current_user_id category_id)) = 400
        \<and> fst (category_delete d current_user_id category_id) =
            error_response
              (''Cannot delete category with '' @ str_nat (category_recipe_count d category)
                 @ '' recipe(s). Please reassign or delete recipes first.'') 400
        \<and> snd (category_delete d current_user_id category_id) = d)
   \<and> (status_code (fst (category_delete d current_user_id category_id)) = 200 \<longrightarrow>
        (\<exists>c. Category_query_get d category_id = Some c \<and> category_recipe_count d c = 0))
   \<and> (is_admin_user d current_user_id \<and> Category_query_get d category_id = Some category
      \<and> category_recipe_count d category = 0 \<longrightarrow>
        status_code (fst (category_delete d current_user_id category_id)) = 200
        \<and> snd (category_delete d current_user_id category_id) =
            d\<lparr>categories := filter (\<lambda>c. c_id c \<noteq> c_id category) (categories d)\<rparr>)"
  using category_delete_success_only_empty [of d current_user_id category_id]
  by (auto simp: category_delete_blocked category_delete_empty error_response_def
        success_response_def)

lemma example_db_admin: "is_admin_user example_db (create_access_token 1)"
  by (simp add: is_admin_user_def User_query_get_def sql_int_create_access_token example_db_def)

theorem category_delete_guarded_witness:
  "is_admin_user example_db (create_access_token 1)
   \<and> category_recipe_count example_db
        \<lparr>c_id = 1, c_name = ''Main Dishes'', c_slug = ''main-dishes'',
         c_description = None, c_image = None\<rparr> = 1
   \<and> category_delete example_db (create_access_token 1) 1 =
        (error_response
           ''Cannot delete category with 1 recipe(s). Please reassign or delete recipes first.''
           400, example_db)
   \<and> status_code (fst (category_delete example_db (create_access_token 1) 2)) = 200
   \<and> categories (snd (category_delete example_db (create_access_token 1) 2)) =
        [\<lparr>c_id = 1, c_name = ''Main Dishes'', c_slug = ''main-dishes'',
          c_description = None, c_image = None\<rparr>]
   \<and> recipes (snd (category_delete example_db (create_access_token 1) 2)) = recipes example_db"
proof -
  let ?c1 = "\<lparr>c_id = 1, c_name = ''Main Dishes'', c_slug = ''main-dishes'',
               c_description = None, c_image = None\<rparr>"
  let ?c2 = "\<lparr>c_id = 2, c_name = ''Desserts'', c_slug = ''desserts'',
               c_description = None, c_image = None\<rparr>"
  have g1: "Category_query_get example_db 1 = Some ?c1"
    by (simp add: Category_query_get_def example_db_def)
  have g2: "Category_query_get example_db 2 = Some ?c2"
    by (simp add: Category_query_get_def example_db_def)
  have n1: "category_recipe_count example_db ?c1 = 1"
    by (simp add: category_recipe_count_def example_db_def)
  have n2: "category_recipe_count example_db ?c2 = 0"
    by (simp add: category_recipe_count_def example_db_def)
  have s1: "str_nat 1 = ''1''"
    by code_simp
  have blocked:
    "fst (category_delete example_db (create_access_token 1) 1) =
       error_response
         (''Cannot delete category with '' @ str_nat (category_recipe_count example_db ?c1)
            @ '' recipe(s). Please reassign or delete recipes first.'') 400
     \<and> snd (category_delete example_db (create_access_token 1) 1) = example_db"
    using category_delete_guarded [of example_db "create_access_token 1" 1 ?c1]
      example_db_admin g1 n1 by simp
  have removed:
    "status_code (fst (category_delete example_db (create_access_token 1) 2)) = 200
     \<and> snd (category_delete example_db (create_access_token 1) 2) =
         example_db\<lparr>categories := filter (\<lambda>c. c_id c \<noteq> c_id ?c2) (categories example_db)\<rparr>"
    using category_delete_guarded [of example_db "create_access_token 1" 2 ?c2]
      example_db_admin g2 n2 by simp
  have cats: "filter (\<lambda>c. c_id c \<noteq> c_id ?c2) (categories example_db) = [?c1]"
    by (simp add: example_db_def)
  show ?thesis
    using blocked removed example_db_admin n1 s1 cats
    by (simp add: prod_eq_iff)
qed

subsection \<open>Reading an unpublished recipe\<close>

lemma recipe_get_unpublished_forbidden:
  assumes "Recipe_query_get d recipe_id = Some recipe" and "\<not> r_is_published recipe"
    and "creds = NoToken \<or> creds = InvalidToken
         \<or> (\<exists>i. creds = Token i \<and> i \<noteq> PyInt (int (r_user_id recipe)) \<and> \<not> is_admin_user d i)"
  shows "recipe_get d creds recipe_id = forbidden_response ''This recipe is not published''"
  using assms
  by (auto simp: recipe_get_def Let_def is_admin_user_def User_query_get_def sql_int_def
      split: option.splits)

lemma recipe_get_admin:
  assumes "Recipe_query_get d recipe_id = Some recipe" and "is_admin_user d i"
  shows "recipe_get d (Token i) recipe_id =
           success_response (Some (recipe_detail_dump d recipe))
             ''Recipe retrieved successfully'' 200"
  using assms
  by (auto simp: recipe_get_def Let_def is_admin_user_def split: option.splits)

text \<open>
  With the identity of a token that the API issued, \<open>current_user_id != recipe.user_id\<close>
  compares a string with an integer: an owner who is not an administrator is refused
  like anyone else.
\<close>

lemma recipe_get_token_not_admin_forbidden:
  assumes "Recipe_query_get d recipe_id = Some recipe" and "\<not> r_is_published recipe"
    and "\<not> is_admin_user d (create_access_token u)"
  shows "recipe_get d (Token (create_access_token u)) recipe_id =
           forbidden_response ''This recipe is not published''"
  using assms
  by (intro recipe_get_unpublished_forbidden) (auto simp: create_access_token_def)

text \<open>
  Claim C3. An unpublished recipe is meant to be readable by its owner and by
  administrators. Evaluated on the example store, where recipe 1 is unpublished and
  belongs to user 2, who is not an administrator: the GET with the token issued to user 2
  answers 403, as does the GET without a token; the GET with the administrator's token
  answers 200 with the ingredients and ratings.
\<close>

theorem recipe_get_owner_forbidden:
  "map_option r_user_id (Recipe_query_get example_db 1) = Some 2
   \<and> map_option r_is_published (Recipe_query_get example_db 1) = Some False
   \<and> recipe_get example_db (Token (create_access_token 2)) 1 =
       forbidden_response ''This recipe is not published''
   \<and> recipe_get example_db NoToken 1 = forbidden_response ''This recipe is not published''
   \<and> status_code (recipe_get example_db (Token (create_access_token 1)) 1) = 200
   \<and> map_option rd_ingredients (data (recipe_get example_db (Token (create_access_token 1)) 1)) =
       Some (ingredients example_db)
   \<and> map_option rd_ratings (data (recipe_get example_db (Token (create_access_token 1)) 1)) =
       Some (ratings example_db)"
  by code_simp

subsection \<open>Slugs of recipes\<close>

lemma unique_slug_loop_first_free:
  "\<exists>k. k + 1 \<ge> c \<and> unique_slug_loop taken b s c = (if s \<in> set taken then slug_candidate b k else s)
     \<and> unique_slug_loop taken b s c \<notin> set taken
     \<and> (\<forall>i. c \<le> i \<and> i < k \<longrightarrow> slug_candidate b i \<in> set taken)
     \<and> (s \<in> set taken \<longrightarrow> c \<le> k)"
proof (induction taken b s c rule: unique_slug_loop.induct)
  case (1 taken b s c)
  show ?case
  proof (cases "s \<in> set taken")
    case False
    then show ?thesis
      by (subst (1 2) unique_slug_loop.simps) (auto intro: exI [of _ c])
  next
    case True
    from "1.IH" [OF True] obtain k where k:
      "k + 1 \<ge> c + 1"
      "unique_slug_loop taken b (slug_candidate b c) (c + 1) =
         (if slug_candidate b c \<in> set taken then slug_candidate b k else slug_candidate b c)"
      "unique_slug_loop taken b (slug_candidate b c) (c + 1) \<notin> set taken"
      "\<forall>i. c + 1 \<le> i \<and> i < k \<longrightarrow> slug_candidate b i \<in> set taken"
      "slug_candidate b c \<in> set taken \<longrightarrow> c + 1 \<le> k"
      by blast
    have eq: "unique_slug_loop taken b s c = unique_slug_loop taken b (slug_candidate b c) (c + 1)"
      using True by (subst unique_slug_loop.simps) simp
    show ?thesis
    proof (cases "slug_candidate b c \<in> set taken")
      case True
      with k have "\<forall>i. c \<le> i \<and> i < k \<longrightarrow> slug_candidate b i \<in> set taken"
        by (metis Suc_eq_plus1 Suc_leI le_neq_implies_less)
      with k True \<open>s \<in> set taken\<close> eq show ?thesis
        by (intro exI [of _ k]) auto
    next
      case False
      with k \<open>s \<in> set taken\<close> eq show ?thesis
        by (intro exI [of _ c]) auto
    qed
  qed
qed

lemma unique_slug_first_free:
  "\<exists>k. unique_slug_loop taken b b 1 = nth_candidate b k
      \<and> nth_candidate b k \<notin> set taken
      \<and> (\<forall>i<k. nth_candidate b i \<in> set taken)"
proof -
  obtain k where k:
    "unique_slug_loop taken b b 1 = (if b \<in> set taken then slug_candidate b k else b)"
    "unique_slug_loop taken b b 1 \<notin> set taken"
    "\<forall>i. 1 \<le> i \<and> i < k \<longrightarrow> slug_candidate b i \<in> set taken"
    "b \<in> set taken \<longrightarrow> 1 \<le> k"
    using unique_slug_loop_first_free [of 1 taken b b] by blast
  show ?thesis
  proof (cases "b \<in> set taken")
    case False
    with k show ?thesis
      by (intro exI [of _ 0]) (simp add: nth_candidate_def)
  next
    case True
    with k show ?thesis
      by (intro exI [of _ k]) (auto simp: nth_candidate_def)
  qed
qed

lemma collapse_hyphens_hd:
  "collapse_hyphens (y # zs) \<noteq> [] \<and> hd (collapse_hyphens (y # zs)) = y"
  by (induction zs arbitrary: y) auto

lemma collapse_hyphens_Cons:
  "collapse_hyphens (x # ys) =
     (if x = CHR ''-'' \<and> collapse_hyphens ys \<noteq> [] \<and> hd (collapse_hyphens ys) = CHR ''-''
      then collapse_hyphens ys else x # collapse_hyphens ys)"
proof (cases ys)
  case Nil
  then show ?thesis by simp
next
  case (Cons y zs)
  then show ?thesis
    using collapse_hyphens_hd [of y zs] by auto
qed

lemma collapse_hyphens_cong:
  "collapse_hyphens xs = collapse_hyphens ys \<Longrightarrow>
     collapse_hyphens (x # xs) = collapse_hyphens (x # ys)"
  by (simp only: collapse_hyphens_Cons [of x xs] collapse_hyphens_Cons [of x ys])

lemma space_is_space: "py_isspace (CHR '' '')"
  by (simp add: py_isspace_def)

lemma hyphen_slug_char: "slug_char (CHR ''-'')"
  by (simp add: slug_char_def)

lemma replace_space_Cons:
  "replace_char (CHR '' '') (CHR ''-'') (c # cs) =
     (if c = CHR '' '' then CHR ''-'' else c) # replace_char (CHR '' '') (CHR ''-'') cs"
  by (simp add: replace_char_def)

lemma replace_space_Nil: "replace_char (CHR '' '') (CHR ''-'') [] = []"
  by (simp add: replace_char_def)

lemma only_space_whitespace_Cons:
  "only_space_whitespace (c # cs) \<longleftrightarrow>
     (py_isspace c \<longrightarrow> c = CHR '' '') \<and> only_space_whitespace cs"
  by (simp add: only_space_whitespace_def)

lemma runs_eq_replace:
  assumes "only_space_whitespace s"
  shows "collapse_hyphens (filter slug_char (replace_whitespace_runs s)) =
         collapse_hyphens (filter slug_char (replace_char (CHR '' '') (CHR ''-'') s))"
  using assms
proof (induction s rule: replace_whitespace_runs.induct)
  case 1
  show ?case by (simp add: replace_space_Nil)
next
  case (2 c)
  show ?case
  proof (cases "py_isspace c")
    case True
    with "2.prems" have "c = CHR '' ''"
      by (simp add: only_space_whitespace_Cons)
    then show ?thesis
      by (simp add: replace_space_Cons replace_space_Nil space_is_space)
  next
    case False
    then have "c \<noteq> CHR '' ''"
      using space_is_space by blast
    with False show ?thesis
      by (simp add: replace_space_Cons replace_space_Nil)
  qed
next
  case (3 c c' cs)
  from "3.prems" have rest: "only_space_whitespace (c' # cs)"
    by (simp add: only_space_whitespace_Cons)
  from "3.prems" have c: "py_isspace c \<longrightarrow> c = CHR '' ''"
    by (simp add: only_space_whitespace_Cons)
  from "3.prems" have c': "py_isspace c' \<longrightarrow> c' = CHR '' ''"
    by (simp add: only_space_whitespace_Cons)
  let ?R = "replace_char (CHR '' '') (CHR ''-'')"
  show ?case
  proof (cases "py_isspace c \<and> py_isspace c'")
    case True
    then have cc: "c = CHR '' ''" "c' = CHR '' ''"
      using c c' by blast+
    have ih: "collapse_hyphens (filter slug_char (replace_whitespace_runs (c' # cs))) =
              collapse_hyphens (filter slug_char (?R (c' # cs)))"
      using "3.IH"(1) [OF True rest] .
    have r1: "filter slug_char (?R (c # c' # cs)) = CHR ''-'' # filter slug_char (?R (c' # cs))"
      unfolding replace_space_Cons [of c] using cc(1) hyphen_slug_char by simp
    have r2: "filter slug_char (?R (c' # cs)) = CHR ''-'' # filter slug_char (?R cs)"
      unfolding replace_space_Cons [of c'] using cc(2) hyphen_slug_char by simp
    have "collapse_hyphens (filter slug_char (?R (c # c' # cs))) =
          collapse_hyphens (filter slug_char (?R (c' # cs)))"
      unfolding r1 unfolding r2 by simp
    moreover have "replace_whitespace_runs (c # c' # cs) = replace_whitespace_runs (c' # cs)"
      using True by simp
    ultimately show ?thesis
      using ih by simp
  next
    case False
    have ih: "collapse_hyphens (filter slug_char (replace_whitespace_runs (c' # cs))) =
              collapse_hyphens (filter slug_char (?R (c' # cs)))"
      using "3.IH"(2) [OF False rest] .
    let ?h = "if py_isspace c then CHR ''-'' else c"
    have "(c = CHR '' '') = py_isspace c"
      using c space_is_space by blast
    then have h: "?R (c # c' # cs) = ?h # ?R (c' # cs)"
      unfolding replace_space_Cons [of c] by simp
    have l: "replace_whitespace_runs (c # c' # cs) = ?h # replace_whitespace_runs (c' # cs)"
      using False by simp
    show ?thesis
    proof (cases "slug_char ?h")
      case True
      have "collapse_hyphens (?h # filter slug_char (replace_whitespace_runs (c' # cs))) =
            collapse_hyphens (?h # filter slug_char (?R (c' # cs)))"
        by (rule collapse_hyphens_cong [OF ih])
      with True show ?thesis
        unfolding h l by (simp only: filter.simps if_True)
    next
      case False
      with ih show ?thesis
        unfolding h l by (simp only: filter.simps if_False)
    qed
  qed
qed

lemma of_char_py_lower_char:
  "(of_char (py_lower_char c) :: nat) =
     (let k = of_char c
      in if (65 \<le> k \<and> k \<le> 90) \<or> (192 \<le> k \<and> k \<le> 222 \<and> k \<noteq> 215) then k + 32 else k)"
proof -
  have "(of_char (char_of (k + 32 :: nat)) :: nat) = k + 32" if "k \<le> 222" for k
    using that by (simp add: take_bit_eq_mod)
  then show ?thesis
    by (simp add: py_lower_char_def Let_def)
qed

lemma char_eq_space: "c = CHR '' '' \<longleftrightarrow> (of_char c :: nat) = 32"
proof
  assume "c = CHR '' ''"
  then show "(of_char c :: nat) = 32" by simp
next
  assume "(of_char c :: nat) = 32"
  then have "(of_char c :: nat) = of_char (CHR '' '')" by simp
  then show "c = CHR '' ''" by (simp only: of_char_eq_iff)
qed

lemma py_lower_char_space: "py_isspace (py_lower_char c) = py_isspace c"
  unfolding py_isspace_def of_char_py_lower_char Let_def by auto

lemma py_lower_char_eq_space: "py_lower_char c = CHR '' '' \<longleftrightarrow> c = CHR '' ''"
  unfolding char_eq_space of_char_py_lower_char Let_def by auto

lemma only_space_whitespace_lower: "only_space_whitespace (py_lower t) = only_space_whitespace t"
  by (induction t)
     (simp_all add: only_space_whitespace_def py_lower_def py_lower_char_space py_lower_char_eq_space)

lemma recipe_new_slug_eq_spec:
  "only_space_whitespace t \<Longrightarrow> recipe_new_slug t = deriveSlug_spec t"
  by (simp add: recipe_new_slug_def deriveSlug_spec_def runs_eq_replace only_space_whitespace_lower)

lemma recipe_create_schema_load_title:
  "recipe_create_schema_load j = Some v \<Longrightarrow> rj_title j = Val (rv_title v)"
  by (auto simp: recipe_create_schema_load_def split: field.splits if_splits)

lemma recipe_post_created:
  assumes "status_code (fst (recipe_post d ident (Some j))) = 201"
  shows "\<exists>v new_recipe.
           recipe_create_schema_load j = Some v
           \<and> data (fst (recipe_post d ident (Some j))) = Some new_recipe
           \<and> recipes (snd (recipe_post d ident (Some j))) = recipes d @ [new_recipe]
           \<and> r_title new_recipe = rv_title v
           \<and> r_slug new_recipe =
               unique_slug_loop (map r_slug (recipes d)) (recipe_new_slug (rv_title v))
                 (recipe_new_slug (rv_title v)) 1"
  using assms
  by (auto simp: recipe_post_def db_add_recipe_def Let_def error_response_def
        validation_error_response_def not_found_response_def success_response_def
      split: option.splits if_splits sum.splits)

text \<open>
  Claim C5, as amended. A recipe that is created with the title \<open>t\<close> is stored with the
  first free slug among \<open>recipe_new_slug t\<close> and the same with the suffixes \<open>-1\<close>,
  \<open>-2\<close>, ... in this order, free meaning that no recipe of the store has it;
  \<open>recipe_new_slug t\<close> is \<open>t\<close> in lower case with every space replaced by a hyphen,
  the characters outside \<open>[a-z0-9-]\<close> removed, runs of hyphens collapsed and the hyphens
  at both ends trimmed. Where the only whitespace of \<open>t\<close> is the space character, this is
  the slug that the specification's \<open>deriveSlug\<close> describes.
\<close>

theorem recipe_post_slug:
  assumes "status_code (fst (recipe_post d ident (Some j))) = 201"
  shows "\<exists>t new_recipe k.
           rj_title j = Val t
           \<and> data (fst (recipe_post d ident (Some j))) = Some new_recipe
           \<and> recipes (snd (recipe_post d ident (Some j))) = recipes d @ [new_recipe]
           \<and> r_slug new_recipe = nth_candidate (recipe_new_slug t) k
           \<and> nth_candidate (recipe_new_slug t) k \<notin> set (map r_slug (recipes d))
           \<and> (\<forall>i<k. nth_candidate (recipe_new_slug t) i \<in> set (map r_slug (recipes d)))
           \<and> (only_space_whitespace t \<longrightarrow> recipe_new_slug t = deriveSlug_spec t)"
proof -
  from recipe_post_created [OF assms] obtain v new_recipe where v:
    "recipe_create_schema_load j = Some v"
    "data (fst (recipe_post d ident (Some j))) = Some new_recipe"
    "recipes (snd (recipe_post d ident (Some j))) = recipes d @ [new_recipe]"
    "r_slug new_recipe =
       unique_slug_loop (map r_slug (recipes d)) (recipe_new_slug (rv_title v))
         (recipe_new_slug (rv_title v)) 1"
    by blast
  obtain k where k:
    "unique_slug_loop (map r_slug (recipes d)) (recipe_new_slug (rv_title v))
       (recipe_new_slug (rv_title v)) 1 = nth_candidate (recipe_new_slug (rv_title v)) k"
    "nth_candidate (recipe_new_slug (rv_title v)) k \<notin> set (map r_slug (recipes d))"
    "\<forall>i<k. nth_candidate (recipe_new_slug (rv_title v)) i \<in> set (map r_slug (recipes d))"
    using unique_slug_first_free [of "map r_slug (recipes d)" "recipe_new_slug (rv_title v)"]
    by blast
  show ?thesis
    using recipe_create_schema_load_title [OF v(1)] v(2,3,4) k recipe_new_slug_eq_spec
    by (intro exI [of _ "rv_title v"] exI [of _ new_recipe] exI [of _ k]) simp
qed


lemma recipe_slug_examples:
  "recipe_new_slug ''Spicy Chicken!!'' = ''spicy-chicken''"
  "deriveSlug_spec ''Spicy Chicken!!'' = ''spicy-chicken''"
  "recipe_new_slug ''Spicy Chicken'' = ''spicy-chicken''"
  by code_simp+

theorem recipe_post_slug_witness:
  "status_code (fst (recipe_post rated_db (create_access_token 2)
      (Some \<lparr>rj_title = Val ''Spicy Chicken'', rj_instructions = Val ''Fry it again.'',
             rj_category_id = Val 1, rj_is_published = Missing\<rparr>))) = 201
   \<and> map r_slug (recipes rated_db) = [''spicy-chicken'']
   \<and> map_option r_slug (data (fst (recipe_post rated_db (create_access_token 2)
      (Some \<lparr>rj_title = Val ''Spicy Chicken'', rj_instructions = Val ''Fry it again.'',
             rj_category_id = Val 1, rj_is_published = Missing\<rparr>)))) = Some ''spicy-chicken-1''
   \<and> (\<exists>t new_recipe k.
         Val ''Spicy Chicken'' = Val t
         \<and> data (fst (recipe_post rated_db (create_access_token 2)
              (Some \<lparr>rj_title = Val ''Spicy Chicken'', rj_instructions = Val ''Fry it again.'',
                     rj_category_id = Val 1, rj_is_published = Missing\<rparr>))) = Some new_recipe
         \<and> r_slug new_recipe = nth_candidate (recipe_new_slug t) k
         \<and> nth_candidate (recipe_new_slug t) k \<notin> set (map r_slug (recipes rated_db))
         \<and> (\<forall>i<k. nth_candidate (recipe_new_slug t) i \<in> set (map r_slug (recipes rated_db))))"
proof -
  let ?j = "\<lparr>rj_title = Val ''Spicy Chicken'', rj_instructions = Val ''Fry it again.'',
             rj_category_id = Val 1, rj_is_published = Missing\<rparr>"
  have created: "status_code (fst (recipe_post rated_db (create_access_token 2) (Some ?j))) = 201"
    by code_simp
  have slugs: "map r_slug (recipes rated_db) = [''spicy-chicken'']"
    by (simp add: rated_db_value)
  have stored: "map_option r_slug (data (fst (recipe_post rated_db (create_access_token 2)
      (Some ?j)))) = Some ''spicy-chicken-1''"
    by code_simp
  show ?thesis
    using recipe_post_slug [OF created] created slugs stored
    by (simp only: recipe_json.simps) blast
qed

text \<open>
  The claim as stated replaces runs of whitespace by a hyphen. The handler replaces
  spaces only: a tabulator in the title is removed with the other characters outside
  \<open>[a-z0-9-]\<close>. The title \<open>Hot<TAB>Soup\<close> passes the schema and is stored with the slug
  \<open>hotsoup\<close>, where the claim's rules give \<open>hot-soup\<close>.
\<close>

theorem recipe_slug_tab_counterexample:
  "fst (recipe_post rated_db (create_access_token 2)
     (Some \<lparr>rj_title = Val (''Hot'' @ [CHR 0x09] @ ''Soup''),
            rj_instructions = Val ''Boil the water.'',
            rj_category_id = Val 1, rj_is_published = Missing\<rparr>)) =
   success_response
     (Some \<lparr>r_id = 2, r_title = ''Hot'' @ [CHR 0x09] @ ''Soup'', r_slug = ''hotsoup'',
            r_instructions = ''Boil the water.'', r_is_published = False, r_user_id = 2,
            r_category_id = 1\<rparr>) ''Recipe created successfully'' 201
   \<and> deriveSlug_spec (''Hot'' @ [CHR 0x09] @ ''Soup'') = ''hot-soup''"
  by code_simp

subsection \<open>Slugs of categories\<close>

lemma Category_generate_slug_map:
  "Category_generate_slug name =
     map (\<lambda>c. if py_lower_char c = CHR '' '' \<or> py_lower_char c = CHR ''_'' then CHR ''-''
              else py_lower_char c) name"
  by (induction name) (simp_all add: Category_generate_slug_def replace_char_def py_lower_def)

lemma Category_generate_slug_length: "length (Category_generate_slug name) = length name"
  by (simp add: Category_generate_slug_map)

lemma category_create_schema_load_name:
  "category_create_schema_load j = Some (name, description, img) \<Longrightarrow> cj_name j = Val name"
  by (auto simp: category_create_schema_load_def split: field.splits if_splits)

lemma category_post_created:
  assumes "status_code (fst (category_post d ident (Some j))) = 201"
  shows "\<exists>name new_category.
           cj_name j = Val name
           \<and> data (fst (category_post d ident (Some j))) = Some new_category
           \<and> categories (snd (category_post d ident (Some j))) = categories d @ [new_category]
           \<and> c_name new_category = name
           \<and> c_slug new_category = Category_generate_slug name
           \<and> Category_generate_slug name \<notin> set (map c_slug (categories d))"
  using assms
  by (auto simp: category_post_def db_add_category_def Let_def error_response_def
        validation_error_response_def forbidden_response_def success_response_def
      dest: category_create_schema_load_name
      split: option.splits if_splits sum.splits db_error.splits prod.splits)

lemma category_post_taken:
  assumes "is_admin_user d ident" and "category_create_schema_load j = Some (name, description, img)"
    and "\<not> category_json_empty j"
    and "Category_generate_slug name \<in> set (map c_slug (categories d))"
  shows "category_post d ident (Some j) =
           (error_response ''Category with this name already exists'' 400, d)"
  using assms by (auto simp: category_post_def db_add_category_def)

text \<open>
  Claim C6, as amended. A category that is created with the name \<open>n\<close> is stored with the
  slug \<open>Category._generate_slug(n)\<close>: \<open>n\<close> in lower case with every space and every
  underscore replaced by a hyphen, character by character; nothing is removed, collapsed
  or trimmed, and no suffix is added. The stored slug is not one of an earlier category;
  when the slug of a valid new name is already taken, the administrator's POST answers
  400 and the store stays as it is.
\<close>

theorem category_post_slug:
  "(status_code (fst (category_post d ident (Some j))) = 201 \<longrightarrow>
      (\<exists>name new_category.
         cj_name j = Val name
         \<and> data (fst (category_post d ident (Some j))) = Some new_category
         \<and> categories (snd (category_post d ident (Some j))) = categories d @ [new_category]
         \<and> c_slug new_category =
             map (\<lambda>c. if py_lower_char c = CHR '' '' \<or> py_lower_char c = CHR ''_'' then CHR ''-''
                      else py_lower_char c) name
         \<and> c_slug new_category \<notin> set (map c_slug (categories d))))
   \<and> (is_admin_user d ident \<and> category_create_schema_load j = Some (name, description, img)
        \<and> Category_generate_slug name \<in> set (map c_slug (categories d)) \<longrightarrow>
          status_code (fst (category_post d ident (Some j))) = 400
          \<and> snd (category_post d ident (Some j)) = d)"
proof (intro conjI impI)
  assume "status_code (fst (category_post d ident (Some j))) = 201"
  from category_post_created [OF this] show
    "\<exists>name new_category.
         cj_name j = Val name
         \<and> data (fst (category_post d ident (Some j))) = Some new_category
         \<and> categories (snd (category_post d ident (Some j))) = categories d @ [new_category]
         \<and> c_slug new_category =
             map (\<lambda>c. if py_lower_char c = CHR '' '' \<or> py_lower_char c = CHR ''_'' then CHR ''-''
                      else py_lower_char c) name
         \<and> c_slug new_category \<notin> set (map c_slug (categories d))"
    unfolding Category_generate_slug_map [symmetric] by metis
next
  assume a: "is_admin_user d ident \<and> category_create_schema_load j = Some (name, description, img)
        \<and> Category_generate_slug name \<in> set (map c_slug (categories d))"
  then have ne: "\<not> category_json_empty j"
    by (auto simp: category_json_empty_def category_create_schema_load_def)
  from category_post_taken [of d ident j name description img] a ne
  show "status_code (fst (category_post d ident (Some j))) = 400"
    and "snd (category_post d ident (Some j)) = d"
    by (simp_all add: error_response_def)
qed

theorem category_post_slug_witness:
  "status_code (fst (category_post rated_db (create_access_token 1)
      (Some \<lparr>cj_name = Val ''Soups & Stews!'', cj_description = Missing, cj_image = Missing\<rparr>)))
     = 201
   \<and> (\<exists>name new_category.
         cj_name \<lparr>cj_name = Val ''Soups & Stews!'', cj_description = Missing, cj_image = Missing\<rparr>
           = Val name
         \<and> data (fst (category_post rated_db (create_access_token 1)
              (Some \<lparr>cj_name = Val ''Soups & Stews!'', cj_description = Missing,
                     cj_image = Missing\<rparr>))) = Some new_category
         \<and> categories (snd (category_post rated_db (create_access_token 1)
              (Some \<lparr>cj_name = Val ''Soups & Stews!'', cj_description = Missing,
                     cj_image = Missing\<rparr>))) = categories rated_db @ [new_category]
         \<and> c_slug new_category =
             map (\<lambda>c. if py_lower_char c = CHR '' '' \<or> py_lower_char c = CHR ''_'' then CHR ''-''
                      else py_lower_char c) name
         \<and> c_slug new_category \<notin> set (map c_slug (categories rated_db)))
   \<and> is_admin_user rated_db (create_access_token 1)
   \<and> category_create_schema_load
        \<lparr>cj_name = Val ''Main_Dishes'', cj_description = Missing, cj_image = Missing\<rparr>
       = Some (''Main_Dishes'', None, None)
   \<and> Category_generate_slug ''Main_Dishes'' \<in> set (map c_slug (categories rated_db))
   \<and> status_code (fst (category_post rated_db (create_access_token 1)
        (Some \<lparr>cj_name = Val ''Main_Dishes'', cj_description = Missing, cj_image = Missing\<rparr>)))
       = 400
   \<and> snd (category_post rated_db (create_access_token 1)
        (Some \<lparr>cj_name = Val ''Main_Dishes'', cj_description = Missing, cj_image = Missing\<rparr>))
       = rated_db"
proof -
  let ?a = "\<lparr>cj_name = Val ''Soups & Stews!'', cj_description = Missing, cj_image = Missing\<rparr>"
  let ?b = "\<lparr>cj_name = Val ''Main_Dishes'', cj_description = Missing, cj_image = Missing\<rparr>"
  have created: "status_code (fst (category_post rated_db (create_access_token 1) (Some ?a))) = 201"
    by code_simp
  have admin: "is_admin_user rated_db (create_access_token 1)"
    by (simp add: is_admin_user_def User_query_get_def sql_int_create_access_token rated_db_value)
  have loaded: "category_create_schema_load ?b = Some (''Main_Dishes'', None, None)"
    by code_simp
  have taken: "Category_generate_slug ''Main_Dishes'' \<in> set (map c_slug (categories rated_db))"
    by code_simp
  note first = mp [OF conjunct1 [OF category_post_slug [of rated_db "create_access_token 1" ?a]]
      created]
  note second = mp [OF conjunct2 [OF category_post_slug
        [of rated_db "create_access_token 1" ?b "''Main_Dishes''" None None]]
      conjI [OF admin conjI [OF loaded taken]]]
  show ?thesis
    by (rule conjI [OF created conjI [OF first conjI [OF admin conjI [OF loaded
          conjI [OF taken second]]]]])
qed

text \<open>
  The claim as stated applies \<open>deriveSlug\<close> and a numeric suffix to categories. On the
  store \<open>rated_db\<close>, the administrator's new category \<open>Soups & Stews!\<close> is stored with
  the slug \<open>soups-&-stews!\<close>, where \<open>deriveSlug\<close> gives \<open>soups-stews\<close>; and the new
  name \<open>Main_Dishes\<close>, whose slug \<open>main-dishes\<close> is taken, is refused with 400 instead
  of being stored as \<open>main-dishes-1\<close>.
\<close>

theorem category_slug_counterexample:

  "fst (category_post rated_db (create_access_token 1)
     (Some \<lparr>cj_name = Val ''Soups & Stews!'', cj_description = Missing, cj_image = Missing\<rparr>)) =
   success_response
     (Some \<lparr>c_id = 2, c_name = ''Soups & Stews!'', c_slug = ''soups-&-stews!'',
            c_description = None, c_image = None\<rparr>) ''Category created successfully'' 201
   \<and> deriveSlug_spec ''Soups & Stews!'' = ''soups-stews''
   \<and> category_post rated_db (create_access_token 1)
     (Some \<lparr>cj_name = Val ''Main_Dishes'', cj_description = Missing, cj_image = Missing\<rparr>) =
     (error_response ''Category with this name already exists'' 400, rated_db)"
  by code_simp

subsection \<open>Bulk creation of ingredients\<close>

lemma ingredient_create_schema_load_order:
  "ingredient_create_schema_load j = Some v \<Longrightarrow>
     iv_order v = Some (case ij_order j of Val k \<Rightarrow> k | _ \<Rightarrow> 0)"
  by (auto simp: ingredient_create_schema_load_def split: field.splits if_splits)

lemma those_map_Some:
  "those (map f xs) = Some ys \<Longrightarrow> length ys = length xs \<and> (\<forall>i<length xs. f (xs ! i) = Some (ys ! i))"
proof (induction xs arbitrary: ys)
  case Nil
  then show ?case by simp
next
  case (Cons x xs)
  then show ?case
    by (auto split: option.splits simp: nth_Cons split: nat.splits)
qed

lemma new_ingredient_order:
  assumes "those (map ingredient_create_schema_load items) = Some validated"
  shows "map i_order (map (new_ingredient recipe_id) (enumerate 0 validated)) =
         map (\<lambda>j. case ij_order j of Val k \<Rightarrow> k | _ \<Rightarrow> 0) items"
proof -
  from those_map_Some [OF assms] have len: "length validated = length items"
    and each: "\<And>i. i < length items \<Longrightarrow> ingredient_create_schema_load (items ! i) = Some (validated ! i)"
    by auto
  show ?thesis
  proof (rule nth_equalityI)
    show "length (map i_order (map (new_ingredient recipe_id) (enumerate 0 validated))) =
          length (map (\<lambda>j. case ij_order j of Val k \<Rightarrow> k | _ \<Rightarrow> 0) items)"
      using len by simp
  next
    fix i
    assume "i < length (map i_order (map (new_ingredient recipe_id) (enumerate 0 validated)))"
    then have i: "i < length items"
      using len by simp
    then have "iv_order (validated ! i) = Some (case ij_order (items ! i) of Val k \<Rightarrow> k | _ \<Rightarrow> 0)"
      using each ingredient_create_schema_load_order by blast
    with i len show "map i_order (map (new_ingredient recipe_id) (enumerate 0 validated)) ! i =
          map (\<lambda>j. case ij_order j of Val k \<Rightarrow> k | _ \<Rightarrow> 0) items ! i"
      by (simp add: new_ingredient_def nth_enumerate_eq)
  qed
qed

lemma db_add_all_ingredients_order:
  "map i_order (fst (db_add_all_ingredients d news)) = map i_order news"
  by (rule nth_equalityI)
     (simp_all add: db_add_all_ingredients_def Let_def nth_enumerate_eq)

lemma ingredient_bulk_post_created:
  assumes "status_code (fst (ingredient_bulk_post d ident recipe_id (Some items))) = 201"
  shows "\<exists>validated rows.
           ingredient_bulk_create_schema_load items = Some validated
           \<and> db_add_all_ingredients d (map (new_ingredient recipe_id) (enumerate 0 validated))
               = (rows, snd (ingredient_bulk_post d ident recipe_id (Some items)))
           \<and> data (fst (ingredient_bulk_post d ident recipe_id (Some items))) =
               Some \<lparr>bc_recipe_id = recipe_id, bc_ingredients = rows, bc_total_added = length rows\<rparr>"
  using assms
  by (auto simp: ingredient_bulk_post_def not_found_response_def forbidden_response_def
        error_response_def validation_error_response_def success_response_def
      split: option.splits permission.splits prod.splits)

text \<open>
  Every ingredient of a successful bulk create whose item gave no \<open>order\<close> is stored with
  the order 0, whatever its position: the schema has filled the key in before the handler
  looks for it.
\<close>

lemma ingredient_bulk_post_orders:
  assumes "status_code (fst (ingredient_bulk_post d ident recipe_id (Some items))) = 201"
  shows "\<exists>p. data (fst (ingredient_bulk_post d ident recipe_id (Some items))) = Some p
           \<and> map i_order (bc_ingredients p) =
               map (\<lambda>j. case ij_order j of Val k \<Rightarrow> k | _ \<Rightarrow> 0) items"
proof -
  from ingredient_bulk_post_created [OF assms] obtain validated rows where v:
    "ingredient_bulk_create_schema_load items = Some validated"
    "db_add_all_ingredients d (map (new_ingredient recipe_id) (enumerate 0 validated))
       = (rows, snd (ingredient_bulk_post d ident recipe_id (Some items)))"
    "data (fst (ingredient_bulk_post d ident recipe_id (Some items))) =
       Some \<lparr>bc_recipe_id = recipe_id, bc_ingredients = rows, bc_total_added = length rows\<rparr>"
    by blast
  from v(1) have t: "those (map ingredient_create_schema_load items) = Some validated"
    by (simp add: ingredient_bulk_create_schema_load_def split: if_splits)
  have "map i_order rows = map i_order (map (new_ingredient recipe_id) (enumerate 0 validated))"
    using db_add_all_ingredients_order
      [of d "map (new_ingredient recipe_id) (enumerate 0 validated)"] v(2)
    by simp
  then have "map i_order rows = map (\<lambda>j. case ij_order j of Val k \<Rightarrow> k | _ \<Rightarrow> 0) items"
    using new_ingredient_order [OF t] by simp
  with v(3) show ?thesis
    by simp
qed

lemma ingredient_bulk_post_too_many:
  assumes "Recipe_query_get d recipe_id = Some recipe"
    and "recipe_permission d recipe ident = Allow" and "50 < length items"
  shows "ingredient_bulk_post d ident recipe_id (Some items) = (validation_error_response, d)"
  using assms
  by (simp add: ingredient_bulk_post_def ingredient_bulk_create_schema_load_def)

lemma ingredient_bulk_post_failure_writes_nothing:
  "status_code (fst (ingredient_bulk_post d ident recipe_id body)) \<noteq> 201 \<Longrightarrow>
     snd (ingredient_bulk_post d ident recipe_id body) = d"
  by (auto simp: ingredient_bulk_post_def success_response_def
      split: option.splits permission.splits prod.splits)

lemma ingredient_bulk_post_valid:
  assumes "Recipe_query_get d recipe_id = Some recipe"
    and "recipe_permission d recipe ident = Allow"
    and "ingredient_bulk_create_schema_load items = Some validated"
  shows "status_code (fst (ingredient_bulk_post d ident recipe_id (Some items))) = 201
       \<and> ingredients (snd (ingredient_bulk_post d ident recipe_id (Some items))) =
           ingredients d @ fst (db_add_all_ingredients d
             (map (new_ingredient recipe_id) (enumerate 0 validated)))"
  using assms
  by (simp add: ingredient_bulk_post_def success_response_def db_add_all_ingredients_def Let_def
      split: prod.splits)

text \<open>
  Claim C9. A bulk create is meant to give an ingredient without \<open>order\<close> its position
  in the submitted list. Evaluated on the store \<open>rated_db\<close> with the administrator's
  token and two valid items that give no \<open>order\<close>: the request answers 201 and both
  ingredients are stored with the order 0, the second one too.
\<close>

theorem ingredient_bulk_post_order_zero:
  "ingredient_bulk_post rated_db (create_access_token 1) 1
     (Some [\<lparr>ij_name = Val ''chicken'', ij_quantity = Val ''1'', ij_unit = Val ''kg'',
             ij_notes = Missing, ij_order = Missing\<rparr>,
            \<lparr>ij_name = Val ''chili'', ij_quantity = Val ''2'', ij_unit = Missing,
             ij_notes = Missing, ij_order = Missing\<rparr>]) =
   (success_response
      (Some \<lparr>bc_recipe_id = 1,
             bc_ingredients =
               [\<lparr>i_id = 1, i_name = ''chicken'', i_quantity = ''1'', i_unit = Some ''kg'',
                 i_notes = None, i_order = 0, i_recipe_id = 1\<rparr>,
                \<lparr>i_id = 2, i_name = ''chili'', i_quantity = ''2'', i_unit = None,
                 i_notes = None, i_order = 0, i_recipe_id = 1\<rparr>],
             bc_total_added = 2\<rparr>)
      ''2 ingredients added successfully'' 201,
    rated_db\<lparr>ingredients :=
      [\<lparr>i_id = 1, i_name = ''chicken'', i_quantity = ''1'', i_unit = Some ''kg'',
        i_notes = None, i_order = 0, i_recipe_id = 1\<rparr>,
       \<lparr>i_id = 2, i_name = ''chili'', i_quantity = ''2'', i_unit = None,
        i_notes = None, i_order = 0, i_recipe_id = 1\<rparr>]\<rparr>)"
  by code_simp

subsection \<open>Bulk update of ingredients\<close>

lemma apply_patch_keys: "i_id (apply_patch i p) = i_id i" "i_recipe_id (apply_patch i p) = i_recipe_id i"
  by (simp_all add: apply_patch_def)

lemma Ingredient_by_id_recipe_patched:
  "Ingredient_by_id_recipe (map (\<lambda>i. if i_id i = x then apply_patch i p else i) rows) k rid = None
     \<longleftrightarrow> Ingredient_by_id_recipe rows k rid = None"
  unfolding Ingredient_by_id_recipe_def
  by (induction rows) (simp_all add: apply_patch_keys)

lemma patch_matches_patched:
  "patch_matches (map (\<lambda>i. if i_id i = x then apply_patch i p else i) rows) rid q
     = patch_matches rows rid q"
  by (simp add: patch_matches_def Ingredient_by_id_recipe_patched split: option.splits)

lemma bulk_update_loop_count:
  "length (snd (bulk_update_loop rid rows ps)) = length (filter (patch_matches rows rid) ps)"
proof (induction ps arbitrary: rows)
  case Nil
  show ?case by simp
next
  case (Cons p ps)
  show ?case
  proof (cases "ip_id p")
    case None
    then show ?thesis
      using Cons.IH [of rows] by (simp add: patch_matches_def)
  next
    case (Some k)
    show ?thesis
    proof (cases "Ingredient_by_id_recipe rows k rid")
      case None
      with Some show ?thesis
        using Cons.IH [of rows] by (simp add: patch_matches_def)
    next
      case (Some ingredient)
      let ?rows = "map (\<lambda>i. if i_id i = i_id ingredient then apply_patch i p else i) rows"
      have same: "filter (patch_matches ?rows rid) ps = filter (patch_matches rows rid) ps"
        by (rule filter_cong) (simp_all add: patch_matches_patched)
      have m: "patch_matches rows rid p"
        using Some \<open>ip_id p = Some k\<close> by (simp add: patch_matches_def)
      have "snd (bulk_update_loop rid rows (p # ps)) = k # snd (bulk_update_loop rid ?rows ps)"
        using Some \<open>ip_id p = Some k\<close> by (simp split: prod.splits)
      then show ?thesis
        using Cons.IH [of ?rows] same m by simp
    qed
  qed
qed

lemma bulk_update_loop_no_match:
  "filter (patch_matches rows rid) ps = [] \<Longrightarrow> bulk_update_loop rid rows ps = (rows, [])"
proof (induction ps)
  case Nil
  show ?case by simp
next
  case (Cons p ps)
  then show ?case
    by (auto simp: patch_matches_def split: option.splits if_splits)
qed

text \<open>
  For a caller who passes the permission check, the loop does what the claim says: the
  request answers 200 whatever the entries are, and \<open>total_updated\<close> counts the entries
  with an \<open>id\<close> that matches an ingredient of the recipe.
\<close>

lemma ingredient_bulk_put_allowed:
  assumes "Recipe_query_get d recipe_id = Some recipe"
    and "recipe_permission d recipe ident = Allow" and "ps \<noteq> []"
  shows "status_code (fst (ingredient_bulk_put d ident recipe_id (Some ps))) = 200
       \<and> map_option bu_total_updated (data (fst (ingredient_bulk_put d ident recipe_id (Some ps))))
           = Some (length (filter (patch_matches (ingredients d) recipe_id) ps))
       \<and> snd (ingredient_bulk_put d ident recipe_id (Some ps)) =
           d\<lparr>ingredients := fst (bulk_update_loop recipe_id (ingredients d) ps)\<rparr>"
  using assms bulk_update_loop_count [of recipe_id "ingredients d" ps]
  by (auto simp: ingredient_bulk_put_def success_response_def split: prod.splits)

lemma recipe_permission_token:
  "recipe_permission d recipe (create_access_token u) =
     (case User_query_get d (create_access_token u) of
        None \<Rightarrow> Raise | Some user \<Rightarrow> if u_is_admin user then Allow else Deny)"
  by (auto simp: recipe_permission_def create_access_token_def split: option.splits)

lemma ingredient_bulk_put_admin_example:
  "ingredient_bulk_put example_db (create_access_token 1) 1
     (Some [\<lparr>ip_id = None, ip_name = Some ''salt'', ip_quantity = None, ip_unit = Missing,
             ip_notes = Missing, ip_order = None\<rparr>,
            \<lparr>ip_id = Some 99, ip_name = Some ''pepper'', ip_quantity = None, ip_unit = Missing,
             ip_notes = Missing, ip_order = None\<rparr>,
            \<lparr>ip_id = Some 1, ip_name = Some ''hen'', ip_quantity = None, ip_unit = Null,
             ip_notes = Missing, ip_order = None\<rparr>]) =
   (success_response
      (Some \<lparr>bu_recipe_id = 1,
             bu_ingredients =
               [\<lparr>i_id = 1, i_name = ''hen'', i_quantity = ''1'', i_unit = None,
                 i_notes = None, i_order = 0, i_recipe_id = 1\<rparr>],
             bu_total_updated = 1\<rparr>)
      ''1 ingredients updated successfully'' 200,
    example_db\<lparr>ingredients :=
      [\<lparr>i_id = 1, i_name = ''hen'', i_quantity = ''1'', i_unit = None,
        i_notes = None, i_order = 0, i_recipe_id = 1\<rparr>,
       \<lparr>i_id = 2, i_name = ''chili'', i_quantity = ''2'', i_unit = None,
        i_notes = None, i_order = 1, i_recipe_id = 1\<rparr>]\<rparr>)"
  by code_simp

text \<open>
  Claim C10. The bulk update is meant for the recipe's owner. Evaluated on the example
  store, where recipe 1 with its ingredient 1 belongs to user 2, who is not an
  administrator: the PUT with the token issued to user 2 and one entry for ingredient 1
  answers 403 and leaves the store as it was.
\<close>

theorem ingredient_bulk_put_owner_forbidden:
  "map_option r_user_id (Recipe_query_get example_db 1) = Some 2
   \<and> ingredient_bulk_put example_db (create_access_token 2) 1
       (Some [\<lparr>ip_id = Some 1, ip_name = Some ''hen'', ip_quantity = None, ip_unit = Missing,
               ip_notes = Missing, ip_order = None\<rparr>]) =
      (forbidden_response ''You don't have permission to update ingredients for this recipe'',
       example_db)"
  by code_simp

subsection \<open>Averages and distributions\<close>

lemma round_half_even_of_int: "round_half_even (of_int k) = k"
  by (simp add: round_half_even_def)

lemma round_half_even_ge_floor: "\<lfloor>x\<rfloor> \<le> round_half_even x"
  by (simp add: round_half_even_def Let_def)

lemma float_laws_exact_ops: "float_laws exact_ops"
proof -
  have idem: "round_to exact_ops (round_to exact_ops x 2) 2 = round_to exact_ops x 2" for x
    by (simp add: exact_ops_def round_half_even_of_int)
  have pos: "truth exact_ops (round_to exact_ops (truediv exact_ops s n) 2)"
    if "0 < n \<and> n \<le> s" for s n :: int
  proof -
    have "(1::rat) \<le> of_int s / of_int n"
      using that by (simp add: le_divide_eq)
    moreover have "(100::rat) \<le> q * 100" if "1 \<le> q" for q :: rat
      using that by simp
    ultimately have "(100::rat) \<le> of_int s / of_int n * 100"
      by blast
    then have "100 \<le> \<lfloor>(of_int s / of_int n * 100 :: rat)\<rfloor>"
      by (simp add: le_floor_iff)
    then have "100 \<le> round_half_even (of_int s / of_int n * 100)"
      using round_half_even_ge_floor [of "of_int s / of_int n * 100"] by linarith
    then show ?thesis
      by (simp add: exact_ops_def)
  qed
  show ?thesis
    unfolding float_laws_def using idem pos by blast
qed

lemma count_score_sum:
  "list_all (\<lambda>r. 1 \<le> rt_score r \<and> rt_score r \<le> 5) rs \<Longrightarrow>
     count_score rs 5 + count_score rs 4 + count_score rs 3 + count_score rs 2 + count_score rs 1
       = length rs"
proof (induction rs)
  case Nil
  show ?case by (simp add: count_score_def)
next
  case (Cons r rs)
  then have "rt_score r = 1 \<or> rt_score r = 2 \<or> rt_score r = 3 \<or> rt_score r = 4 \<or> rt_score r = 5"
    by auto
  with Cons show ?case
    by (auto simp: count_score_def)
qed

lemma recipe_ratings_scores:
  "ratings_ok d \<Longrightarrow> list_all (\<lambda>r. 1 \<le> rt_score r \<and> rt_score r \<le> 5) (recipe_ratings d rid)"
  by (simp add: ratings_ok_def recipe_ratings_def list_all_iff)

lemma scores_sum_ge_length:
  "list_all (\<lambda>r. 1 \<le> rt_score r \<and> rt_score r \<le> 5) rs \<Longrightarrow>
     int (length rs) \<le> sum_list (map rt_score rs)"
  by (induction rs) auto

lemma rating_stats_get_rated:
  assumes "Recipe_query_get d recipe_id = Some recipe" and "recipe_ratings d recipe_id \<noteq> []"
  shows "rating_stats_get ops d recipe_id =
     success_response
       (Some \<lparr>st_recipe_id = recipe_id, st_recipe_title = r_title recipe,
          st_total_ratings = length (recipe_ratings d recipe_id),
          st_average_rating =
            Some (round_to ops
              (truediv ops (sum_list (map rt_score (recipe_ratings d recipe_id)))
                 (int (length (recipe_ratings d recipe_id)))) 2),
          st_distribution =
            \<lparr>five_stars = count_score (recipe_ratings d recipe_id) 5,
             four_stars = count_score (recipe_ratings d recipe_id) 4,
             three_stars = count_score (recipe_ratings d recipe_id) 3,
             two_stars = count_score (recipe_ratings d recipe_id) 2,
             one_star = count_score (recipe_ratings d recipe_id) 1\<rparr>,
          st_distribution_percentages =
            Some \<lparr>five_stars = percentage ops (count_score (recipe_ratings d recipe_id) 5)
                     (length (recipe_ratings d recipe_id)),
                  four_stars = percentage ops (count_score (recipe_ratings d recipe_id) 4)
                     (length (recipe_ratings d recipe_id)),
                  three_stars = percentage ops (count_score (recipe_ratings d recipe_id) 3)
                     (length (recipe_ratings d recipe_id)),
                  two_stars = percentage ops (count_score (recipe_ratings d recipe_id) 2)
                     (length (recipe_ratings d recipe_id)),
                  one_star = percentage ops (count_score (recipe_ratings d recipe_id) 1)
                     (length (recipe_ratings d recipe_id))\<rparr>\<rparr>)
       ''Rating statistics retrieved successfully'' 200"
  using assms by (simp add: rating_stats_get_def Let_def)

lemma rating_stats_get_unrated:
  assumes "Recipe_query_get d recipe_id = Some recipe" and "recipe_ratings d recipe_id = []"
  shows "rating_stats_get ops d recipe_id =
     success_response
       (Some \<lparr>st_recipe_id = recipe_id, st_recipe_title = r_title recipe,
          st_total_ratings = 0, st_average_rating = None,
          st_distribution = \<lparr>five_stars = 0, four_stars = 0, three_stars = 0,
            two_stars = 0, one_star = 0\<rparr>,
          st_distribution_percentages = None\<rparr>)
       ''No ratings yet for this recipe'' 200"
  using assms by (simp add: rating_stats_get_def Let_def)

lemma three_recipe_db_reachable: "reachable three_recipe_db"
  unfolding three_recipe_db_def by (intro reachable.intros stats_db_reachable)

lemma three_recipe_db_ratings:
  "map (\<lambda>r. (rt_recipe_id r, rt_score r)) (ratings three_recipe_db) =
     [(1, 5), (1, 4), (1, 4), (2, 2), (2, 1)]"
  by code_simp

lemma three_recipe_db_recipes: "map r_id (recipes three_recipe_db) = [1, 2, 3]"
  by code_simp

lemma recipe_ratings_filter:
  "filter (\<lambda>r. rt_score r = k) (recipe_ratings d recipe_id) =
     filter (\<lambda>r. rt_recipe_id r = recipe_id \<and> rt_score r = k) (ratings d)"
  by (simp add: recipe_ratings_def)

text \<open>
  Claim C7. In a reachable store, for a recipe with at least one rating, the statistics
  answer 200; the total is the number of ratings in the table that refer to this
  recipe; each of the five buckets holds the number of ratings in the table that refer to
  this recipe and have that score; the five buckets add up to the total; and each
  percentage is the bucket's count divided by the total, times 100, rounded to one
  decimal, in the float arithmetic \<open>ops\<close> that the code calls.
\<close>

theorem rating_stats_distribution:
  assumes "reachable d" and "Recipe_query_get d recipe_id = Some recipe"
    and "filter (\<lambda>r. rt_recipe_id r = recipe_id) (ratings d) \<noteq> []"
  shows "\<exists>st. data (rating_stats_get ops d recipe_id) = Some st
     \<and> status_code (rating_stats_get ops d recipe_id) = 200
     \<and> st_total_ratings st = length (filter (\<lambda>r. rt_recipe_id r = recipe_id) (ratings d))
     \<and> five_stars (st_distribution st) =
         length (filter (\<lambda>r. rt_recipe_id r = recipe_id \<and> rt_score r = 5) (ratings d))
     \<and> four_stars (st_distribution st) =
         length (filter (\<lambda>r. rt_recipe_id r = recipe_id \<and> rt_score r = 4) (ratings d))
     \<and> three_stars (st_distribution st) =
         length (filter (\<lambda>r. rt_recipe_id r = recipe_id \<and> rt_score r = 3) (ratings d))
     \<and> two_stars (st_distribution st) =
         length (filter (\<lambda>r. rt_recipe_id r = recipe_id \<and> rt_score r = 2) (ratings d))
     \<and> one_star (st_distribution st) =
         length (filter (\<lambda>r. rt_recipe_id r = recipe_id \<and> rt_score r = 1) (ratings d))
     \<and> five_stars (st_distribution st) + four_stars (st_distribution st)
         + three_stars (st_distribution st) + two_stars (st_distribution st)
         + one_star (st_distribution st) = st_total_ratings st
     \<and> st_distribution_percentages st =
         Some \<lparr>five_stars = round_to ops (mul_int ops (truediv ops
                    (int (five_stars (st_distribution st))) (int (st_total_ratings st))) 100) 1,
               four_stars = round_to ops (mul_int ops (truediv ops
                    (int (four_stars (st_distribution st))) (int (st_total_ratings st))) 100) 1,
               three_stars = round_to ops (mul_int ops (truediv ops
                    (int (three_stars (st_distribution st))) (int (st_total_ratings st))) 100) 1,
               two_stars = round_to ops (mul_int ops (truediv ops
                    (int (two_stars (st_distribution st))) (int (st_total_ratings st))) 100) 1,
               one_star = round_to ops (mul_int ops (truediv ops
                    (int (one_star (st_distribution st))) (int (st_total_ratings st))) 100) 1\<rparr>"
proof -
  have ne: "recipe_ratings d recipe_id \<noteq> []"
    using assms(3) by (simp add: recipe_ratings_def)
  have "ratings_ok d"
    using assms(1) by (rule reachable_ratings_ok)
  then have total: "count_score (recipe_ratings d recipe_id) 5 + count_score (recipe_ratings d recipe_id) 4
      + count_score (recipe_ratings d recipe_id) 3 + count_score (recipe_ratings d recipe_id) 2
      + count_score (recipe_ratings d recipe_id) 1 = length (recipe_ratings d recipe_id)"
    by (intro count_score_sum recipe_ratings_scores)
  have len: "length (recipe_ratings d recipe_id) =
      length (filter (\<lambda>r. rt_recipe_id r = recipe_id) (ratings d))"
    by (simp add: recipe_ratings_def)
  have cnt: "count_score (recipe_ratings d recipe_id) k =
      length (filter (\<lambda>r. rt_recipe_id r = recipe_id \<and> rt_score r = k) (ratings d))" for k
    by (simp add: count_score_def recipe_ratings_filter)
  show ?thesis
    unfolding rating_stats_get_rated [OF assms(2) ne]
    using total by (simp add: success_response_def percentage_def cnt len)
qed


theorem rating_stats_distribution_witness:
  "reachable three_recipe_db
   \<and> map (\<lambda>r. (rt_recipe_id r, rt_score r)) (ratings three_recipe_db) =
       [(1, 5), (1, 4), (1, 4), (2, 2), (2, 1)]
   \<and> filter (\<lambda>r. rt_recipe_id r = 2) (ratings three_recipe_db) \<noteq> []
   \<and> map_option st_total_ratings (data (rating_stats_get exact_ops three_recipe_db 2)) = Some 2
   \<and> map_option st_distribution (data (rating_stats_get exact_ops three_recipe_db 2)) =
       Some \<lparr>five_stars = 0, four_stars = 0, three_stars = 0, two_stars = 1, one_star = 1\<rparr>
   \<and> map_option st_distribution_percentages (data (rating_stats_get exact_ops three_recipe_db 2)) =
       Some (Some \<lparr>five_stars = 0, four_stars = 0, three_stars = 0, two_stars = 50,
                   one_star = 50\<rparr>)
   \<and> (\<exists>st. data (rating_stats_get exact_ops three_recipe_db 2) = Some st
         \<and> st_total_ratings st =
             length (filter (\<lambda>r. rt_recipe_id r = 2) (ratings three_recipe_db))
         \<and> two_stars (st_distribution st) =
             length (filter (\<lambda>r. rt_recipe_id r = 2 \<and> rt_score r = 2) (ratings three_recipe_db))
         \<and> five_stars (st_distribution st) + four_stars (st_distribution st)
             + three_stars (st_distribution st) + two_stars (st_distribution st)
             + one_star (st_distribution st) = st_total_ratings st)"
proof -
  have recipe: "Recipe_query_get three_recipe_db 2 =
     Some \<lparr>r_id = 2, r_title = ''Hot Soup'', r_slug = ''hot-soup'',
            r_instructions = ''Boil the water.'', r_is_published = True,
            r_user_id = 3, r_category_id = 1\<rparr>"
    by code_simp
  have ne: "filter (\<lambda>r. rt_recipe_id r = 2) (ratings three_recipe_db) \<noteq> []"
    by code_simp
  from rating_stats_distribution [OF three_recipe_db_reachable recipe ne, of exact_ops]
  obtain st where st: "data (rating_stats_get exact_ops three_recipe_db 2) = Some st"
    "st_total_ratings st = length (filter (\<lambda>r. rt_recipe_id r = 2) (ratings three_recipe_db))"
    "two_stars (st_distribution st) =
       length (filter (\<lambda>r. rt_recipe_id r = 2 \<and> rt_score r = 2) (ratings three_recipe_db))"
    "five_stars (st_distribution st) + four_stars (st_distribution st)
       + three_stars (st_distribution st) + two_stars (st_distribution st)
       + one_star (st_distribution st) = st_total_ratings st"
    by blast
  then have ex: "\<exists>st. data (rating_stats_get exact_ops three_recipe_db 2) = Some st
         \<and> st_total_ratings st =
             length (filter (\<lambda>r. rt_recipe_id r = 2) (ratings three_recipe_db))
         \<and> two_stars (st_distribution st) =
             length (filter (\<lambda>r. rt_recipe_id r = 2 \<and> rt_score r = 2) (ratings three_recipe_db))
         \<and> five_stars (st_distribution st) + four_stars (st_distribution st)
             + three_stars (st_distribution st) + two_stars (st_distribution st)
             + one_star (st_distribution st) = st_total_ratings st"
    by blast
  have t: "map_option st_total_ratings (data (rating_stats_get exact_ops three_recipe_db 2)) = Some 2"
    by code_simp
  have d1: "map_option st_distribution (data (rating_stats_get exact_ops three_recipe_db 2)) =
       Some \<lparr>five_stars = 0, four_stars = 0, three_stars = 0, two_stars = 1, one_star = 1\<rparr>"
    by code_simp
  have d2: "map_option st_distribution_percentages
        (data (rating_stats_get exact_ops three_recipe_db 2)) =
       Some (Some \<lparr>five_stars = 0, four_stars = 0, three_stars = 0, two_stars = 50,
                   one_star = 50\<rparr>)"
    by code_simp
  show ?thesis
    by (rule conjI [OF three_recipe_db_reachable conjI [OF three_recipe_db_ratings
          conjI [OF ne conjI [OF t conjI [OF d1 conjI [OF d2 ex]]]]]])
qed

text \<open>
  Claim C2. The average of a recipe reaches a client in two places: the statistics of
  its ratings, and the field \<open>average_rating\<close> of the response schema, which every
  route that serialises a recipe uses. In a reachable store, under the two facts
  \<open>float_laws\<close> of the float arithmetic: when no rating in the table refers to the
  recipe, both report no average; otherwise both report the sum of the scores of the
  ratings that refer to the recipe, divided by their count and rounded to two decimals.
\<close>

theorem average_rating_reported:
  assumes "reachable d" and "float_laws ops" and "Recipe_query_get d recipe_id = Some recipe"
  shows "(filter (\<lambda>r. rt_recipe_id r = recipe_id) (ratings d) = [] \<longrightarrow>
            map_option st_average_rating (data (rating_stats_get ops d recipe_id)) = Some None
            \<and> get_average_rating ops d recipe = None)
       \<and> (filter (\<lambda>r. rt_recipe_id r = recipe_id) (ratings d) \<noteq> [] \<longrightarrow>
            map_option st_average_rating (data (rating_stats_get ops d recipe_id)) =
              Some (Some (round_to ops
                (truediv ops
                   (sum_list (map rt_score (filter (\<lambda>r. rt_recipe_id r = recipe_id) (ratings d))))
                   (int (length (filter (\<lambda>r. rt_recipe_id r = recipe_id) (ratings d))))) 2))
            \<and> get_average_rating ops d recipe =
              Some (FloatNum (round_to ops
                (truediv ops
                   (sum_list (map rt_score (filter (\<lambda>r. rt_recipe_id r = recipe_id) (ratings d))))
                   (int (length (filter (\<lambda>r. rt_recipe_id r = recipe_id) (ratings d))))) 2)))"
proof -
  have rid: "r_id recipe = recipe_id"
    using assms(3) by (auto simp: Recipe_query_get_def find_Some_iff)
  have ok: "ratings_ok d"
    using assms(1) by (rule reachable_ratings_ok)
  have rs: "recipe_ratings d recipe_id = filter (\<lambda>r. rt_recipe_id r = recipe_id) (ratings d)"
    by (simp add: recipe_ratings_def)
  let ?rs = "filter (\<lambda>r. rt_recipe_id r = recipe_id) (ratings d)"
  let ?q = "round_to ops (truediv ops (sum_list (map rt_score ?rs)) (int (length ?rs))) 2"
  have empty: "get_average_rating ops d recipe = None" if "?rs = []"
    using that
    by (simp add: get_average_rating_def Recipe_average_rating_def rid rs pynum_truth_def Let_def)
  have rated: "get_average_rating ops d recipe = Some (FloatNum ?q)" if ne: "?rs \<noteq> []"
  proof -
    have "list_all (\<lambda>r. 1 \<le> rt_score r \<and> rt_score r \<le> 5) ?rs"
      using recipe_ratings_scores [OF ok, of recipe_id] by (simp only: rs)
    then have "int (length ?rs) \<le> sum_list (map rt_score ?rs)"
      by (rule scores_sum_ge_length)
    moreover have "0 < int (length ?rs)"
      using ne by simp
    ultimately have t: "truth ops ?q"
      using assms(2) unfolding float_laws_def by blast
    have i: "round_to ops ?q 2 = ?q"
      using assms(2) unfolding float_laws_def by blast
    show ?thesis
      using ne t i
      by (simp add: get_average_rating_def Recipe_average_rating_def rid rs pynum_truth_def
            pynum_round_def Let_def)
  qed
  have s0: "map_option st_average_rating (data (rating_stats_get ops d recipe_id)) = Some None"
    if "?rs = []"
    using rating_stats_get_unrated [OF assms(3), of ops] that
    by (simp add: rs success_response_def)
  have s1: "map_option st_average_rating (data (rating_stats_get ops d recipe_id)) = Some (Some ?q)"
    if "?rs \<noteq> []"
    using rating_stats_get_rated [OF assms(3), of ops] that
    by (simp add: rs success_response_def)
  show ?thesis
    using empty rated s0 s1 by blast
qed

theorem average_rating_reported_witness:
  "reachable three_recipe_db \<and> float_laws exact_ops
   \<and> map (\<lambda>r. (rt_recipe_id r, rt_score r)) (ratings three_recipe_db) =
       [(1, 5), (1, 4), (1, 4), (2, 2), (2, 1)]
   \<and> filter (\<lambda>r. rt_recipe_id r = 3) (ratings three_recipe_db) = []
   \<and> map_option st_average_rating (data (rating_stats_get exact_ops three_recipe_db 3)) = Some None
   \<and> get_average_rating exact_ops three_recipe_db
        \<lparr>r_id = 3, r_title = ''Plain Rice'', r_slug = ''plain-rice'',
         r_instructions = ''Steam the rice.'', r_is_published = True,
         r_user_id = 3, r_category_id = 1\<rparr> = None
   \<and> filter (\<lambda>r. rt_recipe_id r = 1) (ratings three_recipe_db) \<noteq> []
   \<and> map_option st_average_rating (data (rating_stats_get exact_ops three_recipe_db 1))
       = Some (Some (433 / 100))
   \<and> get_average_rating exact_ops three_recipe_db
        \<lparr>r_id = 1, r_title = ''Spicy Chicken!!'', r_slug = ''spicy-chicken'',
         r_instructions = ''Fry the chicken.'', r_is_published = True,
         r_user_id = 2, r_category_id = 1\<rparr> = Some (FloatNum (433 / 100))"
proof -
  let ?r1 = "\<lparr>r_id = 1, r_title = ''Spicy Chicken!!'', r_slug = ''spicy-chicken'',
         r_instructions = ''Fry the chicken.'', r_is_published = True,
         r_user_id = 2, r_category_id = 1\<rparr>"
  let ?r3 = "\<lparr>r_id = 3, r_title = ''Plain Rice'', r_slug = ''plain-rice'',
         r_instructions = ''Steam the rice.'', r_is_published = True,
         r_user_id = 3, r_category_id = 1\<rparr>"
  have g1: "Recipe_query_get three_recipe_db 1 = Some ?r1"
    by code_simp
  have g3: "Recipe_query_get three_recipe_db 3 = Some ?r3"
    by code_simp
  have e3: "filter (\<lambda>r. rt_recipe_id r = 3) (ratings three_recipe_db) = []"
    by code_simp
  have ne1: "filter (\<lambda>r. rt_recipe_id r = 1) (ratings three_recipe_db) \<noteq> []"
    by code_simp
  have q: "round_to exact_ops
            (truediv exact_ops
               (sum_list (map rt_score (filter (\<lambda>r. rt_recipe_id r = 1) (ratings three_recipe_db))))
               (int (length (filter (\<lambda>r. rt_recipe_id r = 1) (ratings three_recipe_db))))) 2
           = 433 / 100"
    by code_simp
  note u = average_rating_reported [OF three_recipe_db_reachable float_laws_exact_ops g3]
  note s = average_rating_reported [OF three_recipe_db_reachable float_laws_exact_ops g1]
  have u1: "map_option st_average_rating (data (rating_stats_get exact_ops three_recipe_db 3))
       = Some None"
    and u2: "get_average_rating exact_ops three_recipe_db ?r3 = None"
    using u e3 by blast+
  have s1: "map_option st_average_rating (data (rating_stats_get exact_ops three_recipe_db 1))
       = Some (Some (433 / 100))"
    and s2: "get_average_rating exact_ops three_recipe_db ?r1 = Some (FloatNum (433 / 100))"
    using s ne1 unfolding q by blast+
  show ?thesis
    by (rule conjI [OF three_recipe_db_reachable conjI [OF float_laws_exact_ops
          conjI [OF three_recipe_db_ratings conjI [OF e3 conjI [OF u1 conjI [OF u2
          conjI [OF ne1 conjI [OF s1 s2]]]]]]]])
qed

text \<open>
  \<open>Recipe.to_dict\<close>, which no route calls, passes on the integer 0 that
  \<open>Recipe.average_rating\<close> returns for a recipe without ratings.
\<close>

lemma Recipe_to_dict_unrated:
  "recipe_ratings d (r_id recipe) = [] \<Longrightarrow> Recipe_to_dict_ratings ops d recipe = (IntNum 0, 0)"
  by (simp add: Recipe_to_dict_ratings_def Recipe_average_rating_def)

end
